theory Spec2Isabelle
  imports Complex_Main
begin

section \<open>The training driver \<^verbatim>\<open>main.py\<close>\<close>

text \<open>
  The driver parses a command line, builds a dataset and a model, calls the training
  loop and optionally exports graph embeddings. Everything it does is a call to a
  collaborator (\<^verbatim>\<open>argparse\<close>, \<^verbatim>\<open>os\<close>, \<^verbatim>\<open>pickle\<close>, \<^verbatim>\<open>DataSet\<close>,
  the model classes, \<^verbatim>\<open>train\<close>), so a run is modelled by the sequence of calls it
  makes (its events) and the way it ends. The collaborators whose code is not part of
  the driver are parameters of the model, collected in an environment record; they
  are total functions of their arguments, of the objects they mutate and of the state
  of the random number generators, and an input or output operation is taken to
  succeed.
\<close>

subsection \<open>Command line and parsed arguments\<close>

text \<open>
  What \<^verbatim>\<open>argparse\<close> found on the command line: one entry per flag of lines 55 to
  67, \<open>None\<close> when the flag is absent. Integer flags hold the value after \<^verbatim>\<open>type=int\<close>.
\<close>

record cli =
  cli_model_type :: "string option"
  cli_dataset :: "string option"
  cli_input_dir :: "string option"
  cli_node_tag :: "string option"
  cli_graph_tag :: "string option"
  cli_label_tag :: "string option"
  cli_feature_size :: "int option"
  cli_graph_embed_size :: "int option"
  cli_num_steps :: "int option"
  cli_batch_size :: "int option"
  cli_save_after_ggnn :: bool

text \<open>The namespace \<^verbatim>\<open>args\<close> returned by \<^verbatim>\<open>parser.parse_args()\<close>.\<close>

record args =
  model_type :: string
  dataset :: string
  input_dir :: string
  node_tag :: string
  graph_tag :: string
  label_tag :: string
  feature_size :: int
  graph_embed_size :: int
  num_steps :: int
  batch_size :: int
  save_after_ggnn_flag :: bool

text \<open>
  The ways a run ends early: \<^verbatim>\<open>argparse\<close> rejects the command line (a required
  flag is missing, or \<^verbatim>\<open>--model_type\<close> is not one of its choices), or the assertion
  of line 93 fails.
\<close>

datatype error = ArgumentError | AssertionError

definition model_type_choices :: "string list" where
  "model_type_choices = [''devign'', ''ggnn'']"

definition default_to :: "'a \<Rightarrow> 'a option \<Rightarrow> 'a" where
  "default_to d v = (case v of None \<Rightarrow> d | Some x \<Rightarrow> x)"

definition parse_args :: "cli \<Rightarrow> error + args" where
  "parse_args c =
     (if (case cli_model_type c of None \<Rightarrow> False | Some m \<Rightarrow> m \<notin> set model_type_choices)
      then Inl ArgumentError
      else case cli_dataset c of
        None \<Rightarrow> Inl ArgumentError
      | Some d \<Rightarrow>
          (case cli_input_dir c of
             None \<Rightarrow> Inl ArgumentError
           | Some i \<Rightarrow>
               Inr \<lparr> model_type = default_to ''devign'' (cli_model_type c),
                     dataset = d,
                     input_dir = i,
                     node_tag = default_to ''node_features'' (cli_node_tag c),
                     graph_tag = default_to ''graph'' (cli_graph_tag c),
                     label_tag = default_to ''target'' (cli_label_tag c),
                     feature_size = default_to 100 (cli_feature_size c),
                     graph_embed_size = default_to 200 (cli_graph_embed_size c),
                     num_steps = default_to 6 (cli_num_steps c),
                     batch_size = default_to 128 (cli_batch_size c),
                     save_after_ggnn_flag = cli_save_after_ggnn c \<rparr>))"

subsection \<open>Paths\<close>

text \<open>
  \<^verbatim>\<open>os.path.join\<close> of two components on a POSIX system: a second component that
  starts with the separator replaces the first; otherwise one separator is put between
  them unless the first is empty or already ends with one.
\<close>

definition starts_with_sep :: "string \<Rightarrow> bool" where
  "starts_with_sep b = (case b of [] \<Rightarrow> False | c # _ \<Rightarrow> c = CHR ''/'')"

definition ends_with_sep :: "string \<Rightarrow> bool" where
  "ends_with_sep a = (case rev a of [] \<Rightarrow> False | c # _ \<Rightarrow> c = CHR ''/'')"

definition path_join :: "string \<Rightarrow> string \<Rightarrow> string" where
  "path_join a b =
     (if starts_with_sep b then b
      else if a = [] \<or> ends_with_sep a then a @ b
      else a @ ''/'' @ b)"

subsection \<open>Objects, calls and events\<close>

datatype model_kind = DevignModel | GGNNSum

datatype split_name = Test | Valid | Train

text \<open>\<^verbatim>\<open>BCELoss(reduction=r)\<close> and \<^verbatim>\<open>Adam(m.parameters(), lr=l, weight_decay=d)\<close>.
  A float literal of the source is the real number its decimal text denotes.\<close>

datatype loss_fn = BCELoss string

datatype 'm optim = Adam 'm real real

text \<open>The keyword arguments of one call of \<^verbatim>\<open>train\<close>.\<close>

record ('d, 'm) train_call =
  tc_model :: 'm
  tc_dataset :: 'd
  max_steps :: int
  dev_every :: int
  loss_function :: loss_fn
  optimizer :: "'m optim"
  save_path :: string
  max_patience :: int
  log_every :: "int option"

text \<open>A JSON value, as \<^verbatim>\<open>json.dumps\<close> receives it.\<close>

datatype json = JFloat real | JInt int | JArray "json list" | JObject "(string \<times> json) list"

text \<open>
  The calls a run makes, in the order it makes them. \<open>NewDataSet\<close> carries the
  arguments of the \<^verbatim>\<open>DataSet\<close> constructor (the three sources, the batch size and
  the three field names), \<open>NewModel\<close> those of the model constructor (input and output
  dimension, number of steps and number of edge types).
\<close>

datatype ('d, 'm) event =
    Print string
  | PrintStderr string
  | TorchManualSeed int
  | NumpyRandomSeed int
  | MakeDirs string
  | DebugMsg string
  | DebugLens int int int
  | DebugTotalParameters int
  | PickleLoad string
  | NewDataSet string string string int string string string
  | PickleDump 'd string
  | NewModel model_kind int int int int
  | ModelCuda 'm
  | TrainCall "('d, 'm) train_call"
  | InitializeBatch split_name
  | WriteFile string json

subsection \<open>The world outside the driver\<close>

text \<open>
  The state of the two random number generators, and everything else the collaborators
  read and change (the files, the contents of the dataset and model objects) as one
  value of a type the driver knows nothing about. A dataset \<open>'d\<close> and a model \<open>'m\<close>
  are references to objects whose contents live there.
\<close>

record ('w, 'r) world =
  torch_gen :: 'r
  numpy_gen :: 'r
  outside :: 'w

text \<open>The state of a run: the world and the events so far.\<close>

record ('d, 'm, 'w, 'r) state =
  world :: "('w, 'r) world"
  events :: "('d, 'm) event list"

definition emit :: "('d, 'm) event \<Rightarrow> ('d, 'm, 'w, 'r) state \<Rightarrow> ('d, 'm, 'w, 'r) state" where
  "emit e s = s\<lparr>events := events s @ [e]\<rparr>"

text \<open>
  The collaborators. \<open>seeded_torch\<close> and \<open>seeded_numpy\<close> give the state of a generator
  right after seeding; a call that may draw random numbers or change an object takes
  the world and returns the new one. \<open>initialize_batch\<close> and \<open>get_next_batch\<close> stand for
  the three pairs of methods \<^verbatim>\<open>initialize_<split>_batch\<close>, \<^verbatim>\<open>get_next_<split>_batch\<close>
  of the dataset; a batch is a graph object \<open>'g\<close> with its tensor of targets.
  \<open>tensor_int\<close> is the conversion \<^verbatim>\<open>.int()\<close> of a tensor to 32-bit integers,
  followed by \<^verbatim>\<open>.numpy().tolist()\<close>.
\<close>

record ('g, 'd, 'm, 'w, 'r) env =
  CUDA :: bool
  seeded_torch :: "int \<Rightarrow> 'r"
  seeded_numpy :: "int \<Rightarrow> 'r"
  path_exists :: "string \<Rightarrow> ('w, 'r) world \<Rightarrow> bool"
  makedirs :: "string \<Rightarrow> ('w, 'r) world \<Rightarrow> ('w, 'r) world"
  pickle_load :: "string \<Rightarrow> ('w, 'r) world \<Rightarrow> 'd \<times> ('w, 'r) world"
  pickle_dump :: "'d \<Rightarrow> string \<Rightarrow> ('w, 'r) world \<Rightarrow> ('w, 'r) world"
  write_text :: "string \<Rightarrow> json \<Rightarrow> ('w, 'r) world \<Rightarrow> ('w, 'r) world"
  DataSet :: "string \<Rightarrow> string \<Rightarrow> string \<Rightarrow> int \<Rightarrow> string \<Rightarrow> string \<Rightarrow> string \<Rightarrow>
              ('w, 'r) world \<Rightarrow> 'd \<times> ('w, 'r) world"
  ds_feature_size :: "'d \<Rightarrow> ('w, 'r) world \<Rightarrow> int"
  max_edge_type :: "'d \<Rightarrow> ('w, 'r) world \<Rightarrow> int"
  len_examples :: "split_name \<Rightarrow> 'd \<Rightarrow> ('w, 'r) world \<Rightarrow> int"
  initialize_batch :: "split_name \<Rightarrow> 'd \<Rightarrow> ('w, 'r) world \<Rightarrow> int \<times> ('w, 'r) world"
  get_next_batch :: "split_name \<Rightarrow> 'd \<Rightarrow> ('w, 'r) world \<Rightarrow> ('g \<times> real list) \<times> ('w, 'r) world"
  new_model :: "model_kind \<Rightarrow> int \<Rightarrow> int \<Rightarrow> int \<Rightarrow> int \<Rightarrow> ('w, 'r) world \<Rightarrow> 'm \<times> ('w, 'r) world"
  tally_param :: "'m \<Rightarrow> ('w, 'r) world \<Rightarrow> int"
  model_cuda :: "'m \<Rightarrow> ('w, 'r) world \<Rightarrow> ('w, 'r) world"
  model_call :: "'m \<Rightarrow> 'g \<Rightarrow> bool \<Rightarrow> ('w, 'r) world \<Rightarrow> real list \<times> ('w, 'r) world"
  get_graph_embeddings :: "'m \<Rightarrow> 'g \<Rightarrow> ('w, 'r) world \<Rightarrow> real list list \<times> ('w, 'r) world"
  loss_call :: "loss_fn \<Rightarrow> real list \<Rightarrow> real list \<Rightarrow> real"
  tensor_int :: "real list \<Rightarrow> int list"
  train :: "('d, 'm) train_call \<Rightarrow> ('w, 'r) world \<Rightarrow> ('w, 'r) world"

subsection \<open>Embedding export: \<^verbatim>\<open>save_after_ggnn\<close> (lines 20 to 49)\<close>

text \<open>The four lists the loop fills.\<close>

record ggnn_acc =
  all_predictions :: "int list"
  all_targets :: "int list"
  all_loss :: "real list"
  final :: "(real list \<times> int) list"

definition empty_acc :: ggnn_acc where
  "empty_acc = \<lparr> all_predictions = [], all_targets = [], all_loss = [], final = [] \<rparr>"

text \<open>\<^verbatim>\<open>int(x)\<close> of a Python float (line 43): truncation towards zero, to an
  integer of any size.\<close>

definition int_of_float :: "real \<Rightarrow> int" where
  "int_of_float x = (if 0 \<le> x then \<lfloor>x\<rfloor> else \<lceil>x\<rceil>)"

text \<open>One entry of \<^verbatim>\<open>predictions.ge(torch.ones_like(predictions) / 2).int()\<close>.\<close>

definition ge_half :: "real \<Rightarrow> int" where
  "ge_half p = (if 1 / 2 \<le> p then 1 else 0)"

text \<open>
  The body of \<^verbatim>\<open>for l in range(num_batches)\<close>, the first argument counting the
  iterations left. Moving the batch to the device (lines 29 to 31) does not change its
  values and is not modelled; the flag of line 32 or 34 is passed on to the model.
\<close>

fun save_after_ggnn_loop ::
  "('g, 'd, 'm, 'w, 'r) env \<Rightarrow> 'm \<Rightarrow> loss_fn \<Rightarrow>
   (('w, 'r) world \<Rightarrow> ('g \<times> real list) \<times> ('w, 'r) world) \<Rightarrow>
   nat \<Rightarrow> ggnn_acc \<times> ('w, 'r) world \<Rightarrow> ggnn_acc \<times> ('w, 'r) world" where
  "save_after_ggnn_loop env model lf get_fn 0 (acc, w) = (acc, w)"
| "save_after_ggnn_loop env model lf get_fn (Suc n) (acc, w) =
     (let ((graph, targets), w1) = get_fn w;
          (predictions, w2) = model_call env model graph (CUDA env) w1;
          batch_loss = loss_call env lf predictions targets;
          (output, w3) = get_graph_embeddings env model graph w2
      in save_after_ggnn_loop env model lf get_fn n
           (acc\<lparr> all_predictions := all_predictions acc @ map ge_half predictions,
                 all_targets := all_targets acc @ tensor_int env targets,
                 all_loss := all_loss acc @ [batch_loss],
                 final := final acc @ zip output (map int_of_float targets) \<rparr>, w3))"

definition graph_object :: "real list \<times> int \<Rightarrow> json" where
  "graph_object f =
     JObject [(''graph_feature'', JArray (map JFloat (fst f))), (''target'', JInt (snd f))]"

definition save_after_ggnn ::
  "('g, 'd, 'm, 'w, 'r) env \<Rightarrow> string \<Rightarrow> 'm \<Rightarrow> loss_fn \<Rightarrow> string \<Rightarrow> int \<Rightarrow>
   (('w, 'r) world \<Rightarrow> ('g \<times> real list) \<times> ('w, 'r) world) \<Rightarrow>
   (string \<Rightarrow> ('d, 'm) event) \<Rightarrow> ('d, 'm, 'w, 'r) state \<Rightarrow> ('d, 'm, 'w, 'r) state" where
  "save_after_ggnn env output_dir model lf name num_batches get_fn logger_fn s =
     (let (acc, w) = save_after_ggnn_loop env model lf get_fn (nat num_batches)
                       (empty_acc, world s);
          final_list = JArray (map graph_object (final acc));
          dst_filepath = path_join output_dir (name @ ''_GGNNinput_graph.json'');
          s1 = emit (logger_fn (''Saving to '' @ dst_filepath)) (s\<lparr>world := w\<rparr>)
      in emit (WriteFile dst_filepath final_list)
           (s1\<lparr>world := write_text env dst_filepath final_list (world s1)\<rparr>))"

subsection \<open>The driver (lines 17 to 18 and 51 to 122)\<close>

definition warning_text :: string where
  "warning_text =
     ''Warning!!! Graph Embed dimension should be at least equal to the feature dimension.''
     @ [CHR 0x0A] @ ''Setting graph embedding size to feature size''"

text \<open>Lines 70 to 73.\<close>

definition fix_graph_embed_size ::
  "args \<Rightarrow> ('d, 'm, 'w, 'r) state \<Rightarrow> args \<times> ('d, 'm, 'w, 'r) state" where
  "fix_graph_embed_size a s =
     (if feature_size a > graph_embed_size a
      then (a\<lparr>graph_embed_size := feature_size a\<rparr>, emit (PrintStderr warning_text) s)
      else (a, s))"

text \<open>Lines 75 to 77.\<close>

definition model_dir :: "args \<Rightarrow> string" where
  "model_dir a = path_join ''models'' (dataset a)"

definition make_model_dir ::
  "('g, 'd, 'm, 'w, 'r) env \<Rightarrow> args \<Rightarrow> ('d, 'm, 'w, 'r) state \<Rightarrow> ('d, 'm, 'w, 'r) state" where
  "make_model_dir env a s =
     (if \<not> path_exists env (model_dir a) (world s)
      then emit (MakeDirs (model_dir a)) (s\<lparr>world := makedirs env (model_dir a) (world s)\<rparr>)
      else s)"

text \<open>Lines 78 to 92. The condition of line 80 is written as the source has it.\<close>

definition processed_data_path :: "args \<Rightarrow> string" where
  "processed_data_path a = path_join (input_dir a) ''processed.bin''"

definition load_dataset ::
  "('g, 'd, 'm, 'w, 'r) env \<Rightarrow> args \<Rightarrow> ('d, 'm, 'w, 'r) state \<Rightarrow> 'd \<times> ('d, 'm, 'w, 'r) state" where
  "load_dataset env a s =
     (if False \<and> path_exists env (processed_data_path a) (world s)
      then
        (let s1 = emit (DebugMsg (''Reading already processed data from ''
                          @ processed_data_path a @ ''!'')) s;
             (ds, w) = pickle_load env (processed_data_path a) (world s1);
             s2 = emit (PickleLoad (processed_data_path a)) (s1\<lparr>world := w\<rparr>)
         in (ds, emit (DebugLens (len_examples env Train ds w) (len_examples env Valid ds w)
                         (len_examples env Test ds w)) s2))
      else
        (let (ds, w) = DataSet env (path_join (input_dir a) ''train_GGNNinput.json'')
                         (path_join (input_dir a) ''valid_GGNNinput.json'')
                         (path_join (input_dir a) ''test_GGNNinput.json'')
                         (batch_size a) (node_tag a) (graph_tag a) (label_tag a) (world s);
             s1 = emit (NewDataSet (path_join (input_dir a) ''train_GGNNinput.json'')
                          (path_join (input_dir a) ''valid_GGNNinput.json'')
                          (path_join (input_dir a) ''test_GGNNinput.json'')
                          (batch_size a) (node_tag a) (graph_tag a) (label_tag a))
                    (s\<lparr>world := w\<rparr>)
         in (ds, emit (PickleDump ds (processed_data_path a))
                   (s1\<lparr>world := pickle_dump env ds (processed_data_path a) (world s1)\<rparr>))))"

text \<open>Lines 96 to 101.\<close>

definition selected_kind :: "args \<Rightarrow> model_kind" where
  "selected_kind a = (if model_type a = ''ggnn'' then GGNNSum else DevignModel)"

definition build_model ::
  "('g, 'd, 'm, 'w, 'r) env \<Rightarrow> args \<Rightarrow> 'd \<Rightarrow> ('d, 'm, 'w, 'r) state \<Rightarrow> 'm \<times> ('d, 'm, 'w, 'r) state" where
  "build_model env a ds s =
     (let (m, w) = new_model env (selected_kind a) (ds_feature_size env ds (world s))
                     (graph_embed_size a) (num_steps a) (max_edge_type env ds (world s)) (world s)
      in (m, emit (NewModel (selected_kind a) (ds_feature_size env ds (world s))
                     (graph_embed_size a) (num_steps a) (max_edge_type env ds (world s)))
               (s\<lparr>world := w\<rparr>)))"

text \<open>Lines 103 to 106.\<close>

definition report_model ::
  "('g, 'd, 'm, 'w, 'r) env \<Rightarrow> 'm \<Rightarrow> ('d, 'm, 'w, 'r) state \<Rightarrow> ('d, 'm, 'w, 'r) state" where
  "report_model env m s =
     (let s1 = emit (DebugTotalParameters (tally_param env m (world s))) s;
          s2 = emit (DebugMsg (replicate 100 CHR ''#'')) s1
      in if CUDA env then emit (ModelCuda m) (s2\<lparr>world := model_cuda env m (world s2)\<rparr>)
         else s2)"

text \<open>Lines 107 to 114.\<close>

definition driver_loss_function :: loss_fn where
  "driver_loss_function = BCELoss ''sum''"

definition driver_train_call :: "args \<Rightarrow> 'm \<Rightarrow> 'd \<Rightarrow> ('d, 'm) train_call" where
  "driver_train_call a m ds =
     \<lparr> tc_model = m, tc_dataset = ds, max_steps = 1000000, dev_every = 128,
       loss_function = driver_loss_function,
       optimizer = Adam m (1 / 10000) (1 / 1000),
       save_path = model_dir a @ ''/GGNNSumModel'',
       max_patience = 5, log_every = None \<rparr>"

definition run_train ::
  "('g, 'd, 'm, 'w, 'r) env \<Rightarrow> args \<Rightarrow> 'm \<Rightarrow> 'd \<Rightarrow> ('d, 'm, 'w, 'r) state \<Rightarrow> ('d, 'm, 'w, 'r) state" where
  "run_train env a m ds s =
     emit (TrainCall (driver_train_call a m ds))
       (s\<lparr>world := train env (driver_train_call a m ds) (world s)\<rparr>)"

text \<open>Lines 116 to 122. One of the three calls of lines 120 to 122: the number of
  batches is computed first, then \<^verbatim>\<open>save_after_ggnn\<close> runs.\<close>

definition split_str :: "split_name \<Rightarrow> string" where
  "split_str sp = (case sp of Test \<Rightarrow> ''test'' | Valid \<Rightarrow> ''valid'' | Train \<Rightarrow> ''train'')"

definition after_ggnn_dir :: "args \<Rightarrow> string" where
  "after_ggnn_dir a = path_join (input_dir a) ''after_ggnn''"

definition export_split ::
  "('g, 'd, 'm, 'w, 'r) env \<Rightarrow> args \<Rightarrow> 'm \<Rightarrow> 'd \<Rightarrow> split_name \<Rightarrow>
   ('d, 'm, 'w, 'r) state \<Rightarrow> ('d, 'm, 'w, 'r) state" where
  "export_split env a m ds sp s =
     (let (num_batches, w) = initialize_batch env sp ds (world s);
          s1 = emit (InitializeBatch sp) (s\<lparr>world := w\<rparr>)
      in save_after_ggnn env (after_ggnn_dir a) m driver_loss_function (split_str sp)
           num_batches (get_next_batch env sp ds) Print s1)"

definition export_embeddings ::
  "('g, 'd, 'm, 'w, 'r) env \<Rightarrow> args \<Rightarrow> 'm \<Rightarrow> 'd \<Rightarrow>
   ('d, 'm, 'w, 'r) state \<Rightarrow> ('d, 'm, 'w, 'r) state" where
  "export_embeddings env a m ds s =
     (if save_after_ggnn_flag a
      then
        (let s1 = (if \<not> path_exists env (after_ggnn_dir a) (world s)
                   then emit (MakeDirs (after_ggnn_dir a))
                          (s\<lparr>world := makedirs env (after_ggnn_dir a) (world s)\<rparr>)
                   else s);
             s2 = export_split env a m ds Test s1;
             s3 = export_split env a m ds Valid s2
         in export_split env a m ds Train s3)
      else s)"

text \<open>Lines 70 to 92: the arguments, the dataset and the state at the assertion.\<close>

definition prepare ::
  "('g, 'd, 'm, 'w, 'r) env \<Rightarrow> args \<Rightarrow> ('d, 'm, 'w, 'r) state \<Rightarrow>
   args \<times> 'd \<times> ('d, 'm, 'w, 'r) state" where
  "prepare env a0 s0 =
     (let (a, s1) = fix_graph_embed_size a0 s0;
          s2 = make_model_dir env a s1;
          (ds, s3) = load_dataset env a s2
      in (a, ds, s3))"

text \<open>Lines 70 to 122, from the parsed arguments on.\<close>

definition main_body ::
  "('g, 'd, 'm, 'w, 'r) env \<Rightarrow> args \<Rightarrow> ('d, 'm, 'w, 'r) state \<Rightarrow>
   error option \<times> ('d, 'm, 'w, 'r) state" where
  "main_body env a0 s0 =
     (let (a, ds, s3) = prepare env a0 s0
      in if feature_size a \<noteq> ds_feature_size env ds (world s3)
         then (Some AssertionError, s3)
         else
           (let (m, s4) = build_model env a ds s3;
                s5 = report_model env m s4;
                s6 = run_train env a m ds s5
            in (None, export_embeddings env a m ds s6)))"

text \<open>Lines 18 and 52 to 53: the message about the device, then the two seeds.\<close>

definition startup ::
  "('g, 'd, 'm, 'w, 'r) env \<Rightarrow> ('w, 'r) world \<Rightarrow> ('d, 'm, 'w, 'r) state" where
  "startup env w =
     (let s0 = emit (Print (''CUDA is '' @ (if CUDA env then ''enabled'' else ''disabled'')))
                 \<lparr> world = w, events = [] \<rparr>;
          s1 = emit (TorchManualSeed 1000)
                 (s0\<lparr>world := (world s0)\<lparr>torch_gen := seeded_torch env 1000\<rparr>\<rparr>)
      in emit (NumpyRandomSeed 1000)
           (s1\<lparr>world := (world s1)\<lparr>numpy_gen := seeded_numpy env 1000\<rparr>\<rparr>))"

text \<open>A whole run, from the command line and the world it starts in.\<close>

definition main ::
  "('g, 'd, 'm, 'w, 'r) env \<Rightarrow> cli \<Rightarrow> ('w, 'r) world \<Rightarrow>
   error option \<times> ('d, 'm, 'w, 'r) state" where
  "main env c w =
     (case parse_args c of
        Inl e \<Rightarrow> (Some e, startup env w)
      | Inr a \<Rightarrow> main_body env a (startup env w))"

subsection \<open>Reading a run\<close>

text \<open>What the properties below look at in the events of a run.\<close>

definition is_new_model :: "('d, 'm) event \<Rightarrow> bool" where
  "is_new_model e = (case e of NewModel k i d n t \<Rightarrow> True | _ \<Rightarrow> False)"

definition is_new_dataset :: "('d, 'm) event \<Rightarrow> bool" where
  "is_new_dataset e = (case e of NewDataSet tr va te b n g l \<Rightarrow> True | _ \<Rightarrow> False)"

definition is_pickle_load :: "('d, 'm) event \<Rightarrow> bool" where
  "is_pickle_load e = (case e of PickleLoad p \<Rightarrow> True | _ \<Rightarrow> False)"

text \<open>The arguments after lines 70 to 73, the event of the constructor call of lines
  85 to 89, and the kinds of the events of lines 103 to 106 and 116 to 122.\<close>

definition adjusted :: "args \<Rightarrow> args" where
  "adjusted a = a\<lparr>graph_embed_size := max (feature_size a) (graph_embed_size a)\<rparr>"

definition is_report_event :: "('d, 'm) event \<Rightarrow> bool" where
  "is_report_event e =
     (case e of DebugTotalParameters n \<Rightarrow> True | DebugMsg t \<Rightarrow> True | ModelCuda m \<Rightarrow> True
      | _ \<Rightarrow> False)"

definition is_export_event :: "('d, 'm) event \<Rightarrow> bool" where
  "is_export_event e =
     (case e of MakeDirs p \<Rightarrow> True | InitializeBatch sp \<Rightarrow> True | Print t \<Rightarrow> True
      | WriteFile p j \<Rightarrow> True | _ \<Rightarrow> False)"

definition dataset_event :: "args \<Rightarrow> ('d, 'm) event" where
  "dataset_event a =
     NewDataSet (path_join (input_dir a) ''train_GGNNinput.json'')
       (path_join (input_dir a) ''valid_GGNNinput.json'')
       (path_join (input_dir a) ''test_GGNNinput.json'')
       (batch_size a) (node_tag a) (graph_tag a) (label_tag a)"

text \<open>The events of lines 18, 52 and 53, and the feature size of the dataset as the
  assertion of line 93 reads it in the run that starts from the parsed arguments.\<close>

definition startup_events :: "('g, 'd, 'm, 'w, 'r) env \<Rightarrow> ('d, 'm) event list" where
  "startup_events env =
     [Print (''CUDA is '' @ (if CUDA env then ''enabled'' else ''disabled'')),
      TorchManualSeed 1000, NumpyRandomSeed 1000]"

definition detected_feature_size ::
  "('g, 'd, 'm, 'w, 'r) env \<Rightarrow> args \<Rightarrow> ('w, 'r) world \<Rightarrow> int" where
  "detected_feature_size env a w =
     ds_feature_size env (fst (snd (prepare env a (startup env w))))
       (world (snd (snd (prepare env a (startup env w) :: args \<times> 'd \<times> ('d, 'm, 'w, 'r) state))))"

text \<open>The calls of \<^verbatim>\<open>train\<close>, and the files written with their contents, in order.\<close>

fun train_calls :: "('d, 'm) event list \<Rightarrow> ('d, 'm) train_call list" where
  "train_calls [] = []"
| "train_calls (TrainCall tc # es) = tc # train_calls es"
| "train_calls (e # es) = train_calls es"

fun written :: "('d, 'm) event list \<Rightarrow> (string \<times> json) list" where
  "written [] = []"
| "written (WriteFile p j # es) = (p, j) # written es"
| "written (e # es) = written es"

text \<open>
  The batches that \<open>n\<close> iterations of the loop of \<^verbatim>\<open>save_after_ggnn\<close> fetch from the
  world \<open>w\<close> on, in order: for each the embeddings the model computes and the targets.
\<close>

fun batches_seen ::
  "('g, 'd, 'm, 'w, 'r) env \<Rightarrow> 'm \<Rightarrow>
   (('w, 'r) world \<Rightarrow> ('g \<times> real list) \<times> ('w, 'r) world) \<Rightarrow>
   nat \<Rightarrow> ('w, 'r) world \<Rightarrow> (real list list \<times> real list) list" where
  "batches_seen env model get_fn 0 w = []"
| "batches_seen env model get_fn (Suc n) w =
     (let ((graph, targets), w1) = get_fn w;
          (predictions, w2) = model_call env model graph (CUDA env) w1;
          (output, w3) = get_graph_embeddings env model graph w2
      in (output, targets) # batches_seen env model get_fn n w3)"

text \<open>The pairs of one batch (line 43), and the array written for a list of batches.\<close>

definition batch_rows :: "real list list \<times> real list \<Rightarrow> (real list \<times> int) list" where
  "batch_rows b = zip (fst b) (map int_of_float (snd b))"

definition rows_json :: "(real list list \<times> real list) list \<Rightarrow> json" where
  "rows_json bs = JArray (map graph_object (concat (map batch_rows bs)))"

text \<open>The batches of split \<open>sp\<close> that one of the calls of lines 120 to 122 iterates
  over, when it starts in the world \<open>w\<close>.\<close>

definition split_batches ::
  "('g, 'd, 'm, 'w, 'r) env \<Rightarrow> 'm \<Rightarrow> 'd \<Rightarrow> split_name \<Rightarrow> ('w, 'r) world \<Rightarrow>
   (real list list \<times> real list) list" where
  "split_batches env m ds sp w =
     batches_seen env m (get_next_batch env sp ds)
       (nat (fst (initialize_batch env sp ds w))) (snd (initialize_batch env sp ds w))"

definition export_path :: "args \<Rightarrow> split_name \<Rightarrow> string" where
  "export_path a sp = after_ggnn_dir a @ ''/'' @ split_str sp @ ''_GGNNinput_graph.json''"

subsection \<open>The training loop\<close>

text \<open>
  Modelled from the spec: the function \<^verbatim>\<open>train\<close> of the module \<^verbatim>\<open>trainer\<close>, which
  the driver imports and whose code is not part of the driver. The specification
  describes it as a state machine over training, validating, early-stopped and
  converged-by-max-steps: every \<open>dev_every\<close> optimization steps the model is evaluated
  on the validation split; the best validation metric seen so far is tracked; after
  \<open>max_patience\<close> consecutive validation checks without improvement the loop goes to
  early-stopped and halts; otherwise it continues until \<open>max_steps\<close> optimization
  steps are done. The validation metric is a parameter: \<open>metric k\<close> is the value the
  \<open>k\<close>-th validation check measures.
\<close>

datatype phase = Training | Validating | EarlyStopped | ConvergedByMaxSteps

record training_state =
  phase :: phase
  step_count :: nat
  checks :: nat
  best_metric :: "real option"
  best_check :: nat
  patience_counter :: nat

definition initial_training_state :: training_state where
  "initial_training_state =
     \<lparr> phase = Training, step_count = 0, checks = 0, best_metric = None, best_check = 0,
       patience_counter = 0 \<rparr>"

text \<open>Modelled from the spec: one validation check of that loop. A new best resets
  the counter, anything else counts as one more check without improvement; the first
  check has no earlier value to compare with and is a new best.\<close>

definition validate :: "(nat \<Rightarrow> real) \<Rightarrow> training_state \<Rightarrow> training_state" where
  "validate metric st =
     (let k = checks st + 1; v = metric k
      in if (case best_metric st of None \<Rightarrow> True | Some b \<Rightarrow> b < v)
         then st\<lparr> phase := Validating, checks := k, best_metric := Some v, best_check := k,
                  patience_counter := 0 \<rparr>
         else st\<lparr> phase := Validating, checks := k,
                  patience_counter := patience_counter st + 1 \<rparr>)"

text \<open>Modelled from the spec: the loop itself, the fourth argument counting the
  optimization steps left.\<close>

fun train_steps ::
  "(nat \<Rightarrow> real) \<Rightarrow> nat \<Rightarrow> nat \<Rightarrow> nat \<Rightarrow> training_state \<Rightarrow> training_state" where
  "train_steps metric every patience 0 st = st\<lparr>phase := ConvergedByMaxSteps\<rparr>"
| "train_steps metric every patience (Suc n) st =
     (let st1 = st\<lparr>phase := Training, step_count := step_count st + 1\<rparr>
      in if 0 < every \<and> step_count st1 mod every = 0
         then (let st2 = validate metric st1
               in if patience_counter st2 = patience then st2\<lparr>phase := EarlyStopped\<rparr>
                  else train_steps metric every patience n st2)
         else train_steps metric every patience n st1)"

text \<open>Modelled from the spec: the loop run with the arguments of one call of
  \<^verbatim>\<open>train\<close>.\<close>

definition train_loop :: "(nat \<Rightarrow> real) \<Rightarrow> ('d, 'm) train_call \<Rightarrow> training_state" where
  "train_loop metric tc =
     train_steps metric (nat (dev_every tc)) (nat (max_patience tc)) (nat (max_steps tc))
       initial_training_state"

subsection \<open>A concrete environment\<close>

text \<open>
  A small environment on which the driver can be run: datasets, models and graphs are
  numbers, the outside world is a counter of the batches fetched so far, every split
  has two batches of two examples, and the dataset reports feature size 100.
\<close>

definition example_env :: "(nat, nat, nat, nat, int) env" where
  "example_env =
     \<lparr> CUDA = False,
       seeded_torch = (\<lambda>s. s),
       seeded_numpy = (\<lambda>s. s + 1),
       path_exists = (\<lambda>p w. False),
       makedirs = (\<lambda>p w. w),
       pickle_load = (\<lambda>p w. (0, w)),
       pickle_dump = (\<lambda>d p w. w),
       write_text = (\<lambda>p j w. w),
       DataSet = (\<lambda>tr va te b n g l w. (7, w)),
       ds_feature_size = (\<lambda>d w. 100),
       max_edge_type = (\<lambda>d w. 4),
       len_examples = (\<lambda>sp d w. 0),
       initialize_batch = (\<lambda>sp d w. (2, w)),
       get_next_batch = (\<lambda>sp d w. ((outside w, [1, 0]), w\<lparr>outside := outside w + 1\<rparr>)),
       new_model = (\<lambda>k i d n t w. (1, w)),
       tally_param = (\<lambda>m w. 42),
       model_cuda = (\<lambda>m w. w),
       model_call = (\<lambda>m g c w. ([7 / 10, 2 / 10], w)),
       get_graph_embeddings = (\<lambda>m g w. ([[real g, 1], [real g, 2]], w)),
       loss_call = (\<lambda>lf p t. 0),
       tensor_int = map int_of_float,
       train = (\<lambda>tc w. w) \<rparr>"

definition example_cli :: cli where
  "example_cli =
     \<lparr> cli_model_type = None, cli_dataset = Some ''d'', cli_input_dir = Some ''in'',
       cli_node_tag = None, cli_graph_tag = None, cli_label_tag = None,
       cli_feature_size = None, cli_graph_embed_size = None, cli_num_steps = None,
       cli_batch_size = None, cli_save_after_ggnn = True \<rparr>"

definition example_args :: args where
  "example_args =
     \<lparr> model_type = ''devign'', dataset = ''d'', input_dir = ''in'',
       node_tag = ''node_features'', graph_tag = ''graph'', label_tag = ''target'',
       feature_size = 100, graph_embed_size = 200, num_steps = 6, batch_size = 128,
       save_after_ggnn_flag = True \<rparr>"

definition example_world :: "(nat, int) world" where
  "example_world = \<lparr> torch_gen = 0, numpy_gen = 0, outside = 0 \<rparr>"

definition example_state :: "(nat, nat, nat, int) state" where
  "example_state = \<lparr> world = example_world, events = [] \<rparr>"

text \<open>
  Variations of it: a command line that names the three fields, one with a feature
  size that the dataset does not have, one with a feature size above the default
  embedding size together with a dataset that has it, one with an absolute dataset
  name, one that selects the other model, a world whose generators start elsewhere,
  arguments without the export flag, a model that returns one embedding for a batch
  of two examples, a dataset that holds four examples in every split and reports no
  batch, and a validation metric that never improves after the first check.
\<close>

definition tagged_cli :: cli where
  "tagged_cli =
     example_cli\<lparr> cli_node_tag := Some ''nf'', cli_graph_tag := Some ''edges'',
                   cli_label_tag := Some ''y'' \<rparr>"

definition small_cli :: cli where
  "small_cli = example_cli\<lparr> cli_feature_size := Some 64 \<rparr>"

definition small_args :: args where
  "small_args = example_args\<lparr> feature_size := 64 \<rparr>"

definition wide_cli :: cli where
  "wide_cli = example_cli\<lparr> cli_feature_size := Some 300 \<rparr>"

definition wide_args :: args where
  "wide_args = example_args\<lparr> feature_size := 300 \<rparr>"

definition wide_env :: "(nat, nat, nat, nat, int) env" where
  "wide_env = example_env\<lparr> ds_feature_size := (\<lambda>d w. 300) \<rparr>"

definition absolute_cli :: cli where
  "absolute_cli = example_cli\<lparr> cli_dataset := Some ''/d'' \<rparr>"

definition absolute_args :: args where
  "absolute_args = example_args\<lparr> dataset := ''/d'' \<rparr>"

definition ggnn_cli :: cli where
  "ggnn_cli = example_cli\<lparr> cli_model_type := Some ''ggnn'' \<rparr>"

definition ggnn_args :: args where
  "ggnn_args = example_args\<lparr> model_type := ''ggnn'' \<rparr>"

definition other_world :: "(nat, int) world" where
  "other_world = \<lparr> torch_gen = 5, numpy_gen = 9, outside = 0 \<rparr>"




definition stalled_metric :: "nat \<Rightarrow> real" where
  "stalled_metric k = (if k = 1 then 1 else 0)"

text \<open>The state of the training loop of the driver's call right after validation
  check \<open>j\<close>, when the first check was the best one.\<close>

definition stalled_state :: "(nat \<Rightarrow> real) \<Rightarrow> phase \<Rightarrow> nat \<Rightarrow> training_state" where
  "stalled_state metric ph j =
     \<lparr> phase = ph, step_count = 128 * j, checks = j, best_metric = Some (metric 1),
       best_check = 1, patience_counter = j - 1 \<rparr>"

section \<open>Properties\<close>

subsection \<open>Events of the parts of the driver\<close>

lemma events_emit [simp]: "events (emit e s) = events s @ [e]"
  by (simp add: emit_def)

lemma world_emit [simp]: "world (emit e s) = world s"
  by (simp add: emit_def)

lemma adjusted_fields [simp]:
  "model_type (adjusted a) = model_type a" "dataset (adjusted a) = dataset a"
  "input_dir (adjusted a) = input_dir a" "node_tag (adjusted a) = node_tag a"
  "graph_tag (adjusted a) = graph_tag a" "label_tag (adjusted a) = label_tag a"
  "feature_size (adjusted a) = feature_size a" "num_steps (adjusted a) = num_steps a"
  "batch_size (adjusted a) = batch_size a"
  "save_after_ggnn_flag (adjusted a) = save_after_ggnn_flag a"
  "graph_embed_size (adjusted a) = max (feature_size a) (graph_embed_size a)"
  by (simp_all add: adjusted_def)

lemma adjusted_paths [simp]:
  "model_dir (adjusted a) = model_dir a" "processed_data_path (adjusted a) = processed_data_path a"
  "after_ggnn_dir (adjusted a) = after_ggnn_dir a" "selected_kind (adjusted a) = selected_kind a"
  "dataset_event (adjusted a) = dataset_event a"
  by (simp_all add: model_dir_def processed_data_path_def after_ggnn_dir_def selected_kind_def
      dataset_event_def)

lemma fix_graph_embed_size_fst: "fst (fix_graph_embed_size a s) = adjusted a"
  by (simp add: fix_graph_embed_size_def adjusted_def max_def)

lemma fix_graph_embed_size_world: "world (snd (fix_graph_embed_size a s)) = world s"
  by (simp add: fix_graph_embed_size_def)

lemma fix_graph_embed_size_events:
  "events (snd (fix_graph_embed_size a s)) =
     events s @ (if feature_size a > graph_embed_size a then [PrintStderr warning_text] else [])"
  by (simp add: fix_graph_embed_size_def)

lemma make_model_dir_events:
  "events (make_model_dir env a s) =
     events s @ (if path_exists env (model_dir a) (world s) then [] else [MakeDirs (model_dir a)])"
  by (simp add: make_model_dir_def)

lemma load_dataset_events:
  "events (snd (load_dataset env a s)) =
     events s @ [dataset_event a, PickleDump (fst (load_dataset env a s)) (processed_data_path a)]"
  by (simp add: load_dataset_def split_def Let_def dataset_event_def)

lemma prepare_fst: "fst (prepare env a s) = adjusted a"
  by (simp add: prepare_def split_def Let_def fix_graph_embed_size_fst)

lemma prepare_events:
  "events (snd (snd (prepare env a s))) =
     events s @ (if feature_size a > graph_embed_size a then [PrintStderr warning_text] else [])
       @ (if path_exists env (model_dir a) (world s) then [] else [MakeDirs (model_dir a)])
       @ [dataset_event a, PickleDump (fst (snd (prepare env a s))) (processed_data_path a)]"
  by (simp add: prepare_def split_def Let_def fix_graph_embed_size_fst fix_graph_embed_size_world
      fix_graph_embed_size_events make_model_dir_events load_dataset_events)

lemma build_model_events:
  "events (snd (build_model env a ds s)) =
     events s @ [NewModel (selected_kind a) (ds_feature_size env ds (world s))
                   (graph_embed_size a) (num_steps a) (max_edge_type env ds (world s))]"
  by (simp add: build_model_def split_def Let_def)

lemma report_model_events:
  "\<exists>rep. events (report_model env m s) = events s @ rep \<and> list_all is_report_event rep"
  by (simp add: report_model_def Let_def is_report_event_def)

lemma run_train_events:
  "events (run_train env a m ds s) = events s @ [TrainCall (driver_train_call a m ds)]"
  by (simp add: run_train_def)

lemma export_path_eq:
  "path_join (after_ggnn_dir a) (split_str sp @ ''_GGNNinput_graph.json'') = export_path a sp"
  by (cases sp)
     (auto simp: export_path_def path_join_def after_ggnn_dir_def split_str_def starts_with_sep_def
       ends_with_sep_def split: list.splits)

lemma loop_final:
  "final (fst (save_after_ggnn_loop env m lf get_fn n (acc, w))) =
     final acc @ concat (map batch_rows (batches_seen env m get_fn n w))"
proof (induction n arbitrary: acc w)
  case 0
  show ?case by simp
next
  case (Suc n)
  show ?case
    by (simp add: split_def Let_def Suc.IH batch_rows_def)
qed

lemma save_after_ggnn_events:
  "events (save_after_ggnn env dir m lf name n get_fn logger_fn s) =
     events s @ [logger_fn (''Saving to '' @ path_join dir (name @ ''_GGNNinput_graph.json'')),
                 WriteFile (path_join dir (name @ ''_GGNNinput_graph.json''))
                   (rows_json (batches_seen env m get_fn (nat n) (world s)))]"
  by (simp add: save_after_ggnn_def split_def Let_def loop_final empty_acc_def rows_json_def)

lemma export_split_events:
  "events (export_split env a m ds sp s) =
     events s @ [InitializeBatch sp, Print (''Saving to '' @ export_path a sp),
       WriteFile (export_path a sp) (rows_json (split_batches env m ds sp (world s)))]"
  by (simp add: export_split_def split_def Let_def save_after_ggnn_events export_path_eq
      split_batches_def)

lemma written_append [simp]: "written (xs @ ys) = written xs @ written ys"
  by (induction xs rule: written.induct) simp_all

lemma train_calls_append [simp]: "train_calls (xs @ ys) = train_calls xs @ train_calls ys"
  by (induction xs rule: train_calls.induct) simp_all

lemma export_embeddings_export:
  "\<exists>ex. events (export_embeddings env a m ds s) = events s @ ex \<and> list_all is_export_event ex"
  by (simp add: export_embeddings_def Let_def export_split_events is_export_event_def)

lemma main_body_outcome:
  "fst (main_body env a s) =
     (if feature_size a = ds_feature_size env (fst (snd (prepare env a s)))
                            (world (snd (snd (prepare env a s))))
      then None else Some AssertionError)"
  by (simp add: main_body_def split_def Let_def prepare_fst)

lemma main_body_events_abort:
  "fst (main_body env a s) = Some AssertionError \<Longrightarrow>
   events (snd (main_body env a s)) = events (snd (snd (prepare env a s)))"
  by (simp add: main_body_def split_def Let_def split: if_splits)

lemma main_body_events_run:
  "fst (main_body env a s) = None \<Longrightarrow>
   \<exists>m rep ex.
     events (snd (main_body env a s)) =
       events (snd (snd (prepare env a s)))
       @ [NewModel (selected_kind a) (feature_size a)
            (max (feature_size a) (graph_embed_size a)) (num_steps a)
            (max_edge_type env (fst (snd (prepare env a s))) (world (snd (snd (prepare env a s)))))]
       @ rep @ [TrainCall (driver_train_call (adjusted a) m (fst (snd (prepare env a s))))] @ ex
     \<and> list_all is_report_event rep \<and> list_all is_export_event ex
     \<and> m = fst (new_model env (selected_kind a) (feature_size a)
            (max (feature_size a) (graph_embed_size a)) (num_steps a)
            (max_edge_type env (fst (snd (prepare env a s))) (world (snd (snd (prepare env a s)))))
            (world (snd (snd (prepare env a s)))))"
proof -
  assume ok: "fst (main_body env a s) = None"
  define ds where "ds = fst (snd (prepare env a s))"
  define s3 where "s3 = snd (snd (prepare env a s))"
  define m where "m = fst (build_model env (adjusted a) ds s3)"
  define s4 where "s4 = snd (build_model env (adjusted a) ds s3)"
  have eq: "feature_size a = ds_feature_size env ds (world s3)"
    using ok by (simp add: main_body_outcome ds_def s3_def split: if_splits)
  have body: "snd (main_body env a s) =
      export_embeddings env (adjusted a) m ds (run_train env (adjusted a) m ds (report_model env m s4))"
    using eq by (simp add: main_body_def split_def Let_def prepare_fst ds_def s3_def m_def s4_def)
  obtain rep where rep: "events (report_model env m s4) = events s4 @ rep" "list_all is_report_event rep"
    using report_model_events [of env m s4] by auto
  obtain ex where ex: "events (export_embeddings env (adjusted a) m ds
        (run_train env (adjusted a) m ds (report_model env m s4))) =
      events (run_train env (adjusted a) m ds (report_model env m s4)) @ ex" "list_all is_export_event ex"
    using export_embeddings_export
      [of env "adjusted a" m ds "run_train env (adjusted a) m ds (report_model env m s4)"] by auto
  have s4: "events s4 = events s3 @ [NewModel (selected_kind a) (feature_size a)
            (max (feature_size a) (graph_embed_size a)) (num_steps a) (max_edge_type env ds (world s3))]"
    by (simp add: s4_def build_model_events eq)
  have m: "m = fst (new_model env (selected_kind a) (feature_size a)
            (max (feature_size a) (graph_embed_size a)) (num_steps a) (max_edge_type env ds (world s3))
            (world s3))"
    by (simp add: m_def build_model_def split_def Let_def eq)
  have ev: "events (snd (main_body env a s)) =
      events s3 @ [NewModel (selected_kind a) (feature_size a)
            (max (feature_size a) (graph_embed_size a)) (num_steps a) (max_edge_type env ds (world s3))]
      @ rep @ [TrainCall (driver_train_call (adjusted a) m ds)] @ ex"
    by (simp add: body ex rep s4 run_train_events)
  from ev rep(2) ex(2) m show ?thesis
    unfolding ds_def s3_def by blast
qed

lemma startup_events_eq: "events (startup env w) = startup_events env"
  by (simp add: startup_def startup_events_def Let_def)

lemma startup_world:
  "world (startup env w) =
     \<lparr> torch_gen = seeded_torch env 1000, numpy_gen = seeded_numpy env 1000, outside = outside w \<rparr>"
  by (simp add: startup_def Let_def)

lemma main_parsed: "parse_args c = Inr a \<Longrightarrow> main env c w = main_body env a (startup env w)"
  by (simp add: main_def)

lemma main_rejected:
  "parse_args c = Inl e \<Longrightarrow> main env c w = (Some e, startup env w)"
  by (simp add: main_def)

lemma main_events:
  fixes env :: "('g, 'd, 'm, 'w, 'r) env"
  assumes "parse_args c = Inr a"
  shows "\<exists>mk ds tl.
     events (snd (main env c w)) =
       startup_events env
       @ (if feature_size a > graph_embed_size a then [PrintStderr warning_text] else [])
       @ mk @ [dataset_event a, PickleDump ds (processed_data_path a)] @ tl
     \<and> (mk = [] \<or> mk = [MakeDirs (model_dir a)])
     \<and> (fst (main env c w) = Some AssertionError \<and> tl = [] \<or>
         fst (main env c w) = None \<and>
         (\<exists>m t rep ex.
            tl = [NewModel (selected_kind a) (feature_size a)
                    (max (feature_size a) (graph_embed_size a)) (num_steps a) t]
                 @ rep @ [TrainCall (driver_train_call (adjusted a) m ds)] @ ex
            \<and> list_all is_report_event rep \<and> list_all is_export_event ex
            \<and> (\<exists>w'. m = fst (new_model env (selected_kind a) (feature_size a)
                   (max (feature_size a) (graph_embed_size a)) (num_steps a) t w'))))"
proof -
  define s where "s = startup env w"
  define ds where "ds = fst (snd (prepare env a s))"
  define mk where "mk = (if path_exists env (model_dir a) (world s) then []
                          else [MakeDirs (model_dir a) :: ('d, 'm) event])"
  have m: "main env c w = main_body env a s"
    using assms by (simp add: main_parsed s_def)
  have pre: "events (snd (snd (prepare env a s))) =
      startup_events env
       @ (if feature_size a > graph_embed_size a then [PrintStderr warning_text] else [])
       @ mk @ [dataset_event a, PickleDump ds (processed_data_path a)]"
    by (simp add: prepare_events s_def startup_events_eq ds_def mk_def)
  have mk: "mk = [] \<or> mk = [MakeDirs (model_dir a)]"
    by (simp add: mk_def)
  show ?thesis
  proof (cases "fst (main_body env a s)")
    case None
    from main_body_events_run [OF None] obtain m' rep ex where
      ev: "events (snd (main_body env a s)) =
        events (snd (snd (prepare env a s)))
        @ [NewModel (selected_kind a) (feature_size a)
            (max (feature_size a) (graph_embed_size a)) (num_steps a)
            (max_edge_type env (fst (snd (prepare env a s))) (world (snd (snd (prepare env a s)))))]
        @ rep @ [TrainCall (driver_train_call (adjusted a) m' (fst (snd (prepare env a s))))] @ ex"
      and rep: "list_all is_report_event rep" and ex: "list_all is_export_event ex"
      and m': "m' = fst (new_model env (selected_kind a) (feature_size a)
            (max (feature_size a) (graph_embed_size a)) (num_steps a)
            (max_edge_type env (fst (snd (prepare env a s))) (world (snd (snd (prepare env a s)))))
            (world (snd (snd (prepare env a s)))))"
      by blast
    have "events (snd (main env c w)) =
       (startup_events env
       @ (if feature_size a > graph_embed_size a then [PrintStderr warning_text] else [])
       @ mk @ [dataset_event a, PickleDump ds (processed_data_path a)])
       @ ([NewModel (selected_kind a) (feature_size a)
            (max (feature_size a) (graph_embed_size a)) (num_steps a)
            (max_edge_type env (fst (snd (prepare env a s))) (world (snd (snd (prepare env a s)))))]
        @ rep @ [TrainCall (driver_train_call (adjusted a) m' ds)] @ ex)"
      unfolding m ev pre ds_def by simp
    with None mk rep ex m' show ?thesis
      unfolding m
      apply (rule_tac x = mk in exI)
      apply (rule_tac x = ds in exI)
      apply (rule_tac x = "[NewModel (selected_kind a) (feature_size a)
            (max (feature_size a) (graph_embed_size a)) (num_steps a)
            (max_edge_type env (fst (snd (prepare env a s))) (world (snd (snd (prepare env a s)))))]
        @ rep @ [TrainCall (driver_train_call (adjusted a) m' ds)] @ ex" in exI)
      apply simp
      apply blast
      done
  next
    case (Some e)
    then have e: "fst (main_body env a s) = Some AssertionError"
      by (simp add: main_body_outcome split: if_splits)
    from main_body_events_abort [OF e] pre
    have "events (snd (main env c w)) =
       startup_events env
       @ (if feature_size a > graph_embed_size a then [PrintStderr warning_text] else [])
       @ mk @ [dataset_event a, PickleDump ds (processed_data_path a)] @ []"
      unfolding m by simp
    with e mk show ?thesis
      unfolding m
      apply (rule_tac x = mk in exI)
      apply (rule_tac x = ds in exI)
      apply (rule_tac x = "[]" in exI)
      apply simp
      done
  qed
qed

lemma is_pickle_load_simps [simp]:
  "\<not> is_pickle_load (Print t)" "\<not> is_pickle_load (PrintStderr t)"
  "\<not> is_pickle_load (TorchManualSeed n)" "\<not> is_pickle_load (NumpyRandomSeed n)"
  "\<not> is_pickle_load (MakeDirs p)" "\<not> is_pickle_load (NewDataSet tr va te b n1 g l)"
  "\<not> is_pickle_load (PickleDump ds p)" "\<not> is_pickle_load (NewModel k i d n2 t2)"
  "\<not> is_pickle_load (TrainCall tc)" "\<not> is_pickle_load (dataset_event a)"
  by (simp_all add: is_pickle_load_def dataset_event_def)

lemma report_not_pickle_load: "list_all is_report_event rep \<Longrightarrow> \<not> list_ex is_pickle_load rep"
  by (induction rep) (auto simp: is_report_event_def is_pickle_load_def split: event.splits)

lemma export_not_pickle_load: "list_all is_export_event ex \<Longrightarrow> \<not> list_ex is_pickle_load ex"
  by (induction ex) (auto simp: is_export_event_def is_pickle_load_def split: event.splits)

lemma is_new_dataset_simps [simp]:
  "\<not> is_new_dataset (Print t)" "\<not> is_new_dataset (PrintStderr t)"
  "\<not> is_new_dataset (TorchManualSeed n)" "\<not> is_new_dataset (NumpyRandomSeed n)"
  "\<not> is_new_dataset (MakeDirs p)" "is_new_dataset (NewDataSet tr va te b n1 g l)"
  "\<not> is_new_dataset (PickleDump ds p)" "\<not> is_new_dataset (NewModel k i d n2 t2)"
  "\<not> is_new_dataset (TrainCall tc)" "is_new_dataset (dataset_event a)"
  by (simp_all add: is_new_dataset_def dataset_event_def)

lemma report_not_new_dataset: "list_all is_report_event rep \<Longrightarrow> filter is_new_dataset rep = []"
  by (induction rep) (auto simp: is_report_event_def is_new_dataset_def split: event.splits)

lemma export_not_new_dataset: "list_all is_export_event ex \<Longrightarrow> filter is_new_dataset ex = []"
  by (induction ex) (auto simp: is_export_event_def is_new_dataset_def split: event.splits)

lemma no_pickle_load:
  fixes env :: "('g, 'd, 'm, 'w, 'r) env"
  shows "\<not> list_ex is_pickle_load (events (snd (main env c w)))"
proof (cases "parse_args c")
  case (Inl e)
  then show ?thesis
    by (simp add: main_rejected startup_events_eq startup_events_def)
next
  case (Inr a)
  from main_events [OF Inr, of env w] obtain mk ds tl where
    ev: "events (snd (main env c w)) =
       startup_events env
       @ (if feature_size a > graph_embed_size a then [PrintStderr warning_text] else [])
       @ mk @ [dataset_event a, PickleDump ds (processed_data_path a)] @ tl"
    and mk: "mk = [] \<or> mk = [MakeDirs (model_dir a)]"
    and tl: "tl = [] \<or>
         (\<exists>m t rep ex.
            tl = [NewModel (selected_kind a) (feature_size a)
                    (max (feature_size a) (graph_embed_size a)) (num_steps a) t]
                 @ rep @ [TrainCall (driver_train_call (adjusted a) m ds)] @ ex
            \<and> list_all is_report_event rep \<and> list_all is_export_event ex)"
    by blast
  from tl have "\<not> list_ex is_pickle_load tl"
    by (auto simp: report_not_pickle_load export_not_pickle_load)
  with mk show ?thesis
    unfolding ev by (auto simp: startup_events_def)
qed

lemma new_dataset_once:
  fixes env :: "('g, 'd, 'm, 'w, 'r) env"
  assumes "parse_args c = Inr a"
  shows "filter is_new_dataset (events (snd (main env c w))) = [dataset_event a]"
proof -
  from main_events [OF assms, of env w] obtain mk ds tl where
    ev: "events (snd (main env c w)) =
       startup_events env
       @ (if feature_size a > graph_embed_size a then [PrintStderr warning_text] else [])
       @ mk @ [dataset_event a, PickleDump ds (processed_data_path a)] @ tl"
    and mk: "mk = [] \<or> mk = [MakeDirs (model_dir a)]"
    and tl: "tl = [] \<or>
         (\<exists>m t rep ex.
            tl = [NewModel (selected_kind a) (feature_size a)
                    (max (feature_size a) (graph_embed_size a)) (num_steps a) t]
                 @ rep @ [TrainCall (driver_train_call (adjusted a) m ds)] @ ex
            \<and> list_all is_report_event rep \<and> list_all is_export_event ex)"
    by blast
  from tl have "filter is_new_dataset tl = []"
    by (auto simp: report_not_new_dataset export_not_new_dataset)
  with mk show ?thesis
    unfolding ev by (auto simp: startup_events_def)
qed

lemma report_no_train_calls: "list_all is_report_event rep \<Longrightarrow> train_calls rep = []"
  by (induction rep rule: train_calls.induct) (simp_all add: is_report_event_def)

lemma export_no_train_calls: "list_all is_export_event ex \<Longrightarrow> train_calls ex = []"
  by (induction ex rule: train_calls.induct) (simp_all add: is_export_event_def)

lemma report_no_new_model: "list_all is_report_event rep \<Longrightarrow> filter is_new_model rep = []"
  by (induction rep) (auto simp: is_report_event_def is_new_model_def split: event.splits)

lemma export_no_new_model: "list_all is_export_event ex \<Longrightarrow> filter is_new_model ex = []"
  by (induction ex) (auto simp: is_export_event_def is_new_model_def split: event.splits)

lemma report_no_warning: "list_all is_report_event rep \<Longrightarrow> PrintStderr t \<notin> set rep"
  by (induction rep) (auto simp: is_report_event_def split: event.splits)

lemma export_no_warning: "list_all is_export_event ex \<Longrightarrow> PrintStderr t \<notin> set ex"
  by (induction ex) (auto simp: is_export_event_def split: event.splits)

lemma is_new_model_simps [simp]:
  "\<not> is_new_model (Print t)" "\<not> is_new_model (PrintStderr t)"
  "\<not> is_new_model (TorchManualSeed n)" "\<not> is_new_model (NumpyRandomSeed n)"
  "\<not> is_new_model (MakeDirs p)" "\<not> is_new_model (NewDataSet tr va te b n1 g l)"
  "\<not> is_new_model (PickleDump ds p)" "is_new_model (NewModel k i d n2 t2)"
  "\<not> is_new_model (TrainCall tc)" "\<not> is_new_model (dataset_event a)"
  by (simp_all add: is_new_model_def dataset_event_def)

lemma train_calls_dataset_event [simp]: "train_calls (dataset_event a # es) = train_calls es"
  by (simp add: dataset_event_def)

lemma main_outcome:
  "parse_args c = Inr a \<Longrightarrow>
   fst (main env c w) =
     (if feature_size a = detected_feature_size env a w then None else Some AssertionError)"
  by (simp add: main_parsed main_body_outcome detected_feature_size_def)

text \<open>The model constructions, the training calls and the warnings of a run.\<close>

lemma main_summary:
  fixes env :: "('g, 'd, 'm, 'w, 'r) env"
  assumes "parse_args c = Inr a"
  shows "\<exists>pre post.
     events (snd (main env c w)) = pre @ post
     \<and> filter is_new_model pre = [] \<and> train_calls pre = []
     \<and> (PrintStderr warning_text \<in> set pre \<longleftrightarrow> feature_size a > graph_embed_size a)
     \<and> PrintStderr warning_text \<notin> set post
     \<and> (fst (main env c w) = Some AssertionError \<and> post = [] \<or>
         fst (main env c w) = None \<and>
         (\<exists>m ds t w'.
            filter is_new_model post =
              [NewModel (selected_kind a) (feature_size a)
                 (max (feature_size a) (graph_embed_size a)) (num_steps a) t]
            \<and> post \<noteq> [] \<and> is_new_model (hd post)
            \<and> train_calls post = [driver_train_call (adjusted a) m ds]
            \<and> m = fst (new_model env (selected_kind a) (feature_size a)
                   (max (feature_size a) (graph_embed_size a)) (num_steps a) t w')))"
proof -
  from main_events [OF assms, of env w] obtain mk ds tl where
    ev0: "events (snd (main env c w)) =
       startup_events env
       @ (if feature_size a > graph_embed_size a then [PrintStderr warning_text] else [])
       @ mk @ [dataset_event a, PickleDump ds (processed_data_path a)] @ tl"
    and mk: "mk = [] \<or> mk = [MakeDirs (model_dir a)]"
    and tl: "fst (main env c w) = Some AssertionError \<and> tl = [] \<or>
         fst (main env c w) = None \<and>
         (\<exists>m t rep ex.
            tl = [NewModel (selected_kind a) (feature_size a)
                    (max (feature_size a) (graph_embed_size a)) (num_steps a) t]
                 @ rep @ [TrainCall (driver_train_call (adjusted a) m ds)] @ ex
            \<and> list_all is_report_event rep \<and> list_all is_export_event ex
            \<and> (\<exists>w'. m = fst (new_model env (selected_kind a) (feature_size a)
                   (max (feature_size a) (graph_embed_size a)) (num_steps a) t w')))"
    by blast
  let ?pre = "startup_events env
       @ (if feature_size a > graph_embed_size a then [PrintStderr warning_text] else [])
       @ mk @ [dataset_event a, PickleDump ds (processed_data_path a)]"
  have ev: "events (snd (main env c w)) = ?pre @ tl"
    unfolding ev0 by simp
  have p1: "filter is_new_model ?pre = []" "train_calls ?pre = []"
    using mk by (auto simp: startup_events_def)
  have p2: "PrintStderr warning_text \<in> set ?pre \<longleftrightarrow> feature_size a > graph_embed_size a"
    using mk by (auto simp: startup_events_def dataset_event_def)
  have p3: "PrintStderr warning_text \<notin> set tl"
    using tl by (auto simp: report_no_warning export_no_warning)
  have p4: "fst (main env c w) = Some AssertionError \<and> tl = [] \<or>
         fst (main env c w) = None \<and>
         (\<exists>m ds t w'.
            filter is_new_model tl =
              [NewModel (selected_kind a) (feature_size a)
                 (max (feature_size a) (graph_embed_size a)) (num_steps a) t]
            \<and> tl \<noteq> [] \<and> is_new_model (hd tl)
            \<and> train_calls tl = [driver_train_call (adjusted a) m ds]
            \<and> m = fst (new_model env (selected_kind a) (feature_size a)
                   (max (feature_size a) (graph_embed_size a)) (num_steps a) t w'))"
    using tl
  proof (elim disjE conjE exE)
    assume "fst (main env c w) = Some AssertionError" "tl = []"
    then show ?thesis by simp
  next
    fix m t rep ex w'
    assume ok: "fst (main env c w) = None"
      and tl': "tl = [NewModel (selected_kind a) (feature_size a)
                    (max (feature_size a) (graph_embed_size a)) (num_steps a) t]
                 @ rep @ [TrainCall (driver_train_call (adjusted a) m ds)] @ ex"
      and rep: "list_all is_report_event rep" and ex: "list_all is_export_event ex"
      and m: "m = fst (new_model env (selected_kind a) (feature_size a)
                   (max (feature_size a) (graph_embed_size a)) (num_steps a) t w')"
    have "filter is_new_model tl =
              [NewModel (selected_kind a) (feature_size a)
                 (max (feature_size a) (graph_embed_size a)) (num_steps a) t]"
      by (simp add: tl' report_no_new_model [OF rep] export_no_new_model [OF ex])
    moreover have "tl \<noteq> []" "is_new_model (hd tl)"
      by (simp_all add: tl')
    moreover have "train_calls tl = [driver_train_call (adjusted a) m ds]"
      by (simp add: tl' report_no_train_calls [OF rep] export_no_train_calls [OF ex])
    ultimately show ?thesis
      using ok m by blast
  qed
  from ev p1 p2 p3 p4 show ?thesis
    by blast
qed

lemma parse_example: "parse_args example_cli = Inr example_args"
  by (simp add: parse_args_def example_cli_def example_args_def default_to_def model_type_choices_def)

lemma path_join_plain:
  "a \<noteq> [] \<Longrightarrow> \<not> ends_with_sep a \<Longrightarrow> \<not> starts_with_sep b \<Longrightarrow> path_join a b = a @ ''/'' @ b"
  by (simp add: path_join_def)

lemma example_paths:
  "path_join ''in'' ''train_GGNNinput.json'' = ''in/train_GGNNinput.json''"
  "path_join ''in'' ''valid_GGNNinput.json'' = ''in/valid_GGNNinput.json''"
  "path_join ''in'' ''test_GGNNinput.json'' = ''in/test_GGNNinput.json''"
  "path_join ''in'' ''processed.bin'' = ''in/processed.bin''"
  "path_join ''in'' ''after_ggnn'' = ''in/after_ggnn''"
  "path_join ''models'' ''d'' = ''models/d''"
  by (simp_all add: path_join_def starts_with_sep_def ends_with_sep_def)

subsection \<open>The dataset is always rebuilt\<close>

text \<open>
  C3: in every run the dataset is built by the \<open>DataSet\<close> constructor from the three
  JSON files of the input directory. No run loads a pickled dataset: the branch of
  lines 81 to 83 is never taken, whatever \<open>os.path.exists\<close> answers for
  \<open>processed.bin\<close>. (A run whose command line \<open>argparse\<close> rejects ends at line 68 and
  builds no dataset.)
\<close>

theorem dataset_rebuilt_from_json:
  fixes env :: "('g, 'd, 'm, 'w, 'r) env"
  shows "\<not> list_ex is_pickle_load (events (snd (main env c w)))
     \<and> (\<forall>a. parse_args c = Inr a \<longrightarrow>
          filter is_new_dataset (events (snd (main env c w))) =
            [NewDataSet (path_join (input_dir a) ''train_GGNNinput.json'')
               (path_join (input_dir a) ''valid_GGNNinput.json'')
               (path_join (input_dir a) ''test_GGNNinput.json'')
               (batch_size a) (node_tag a) (graph_tag a) (label_tag a)])
     \<and> load_dataset (env\<lparr>path_exists := pe\<rparr>) b s = load_dataset env b s
     \<and> fst (load_dataset env b s) =
         fst (DataSet env (path_join (input_dir b) ''train_GGNNinput.json'')
                (path_join (input_dir b) ''valid_GGNNinput.json'')
                (path_join (input_dir b) ''test_GGNNinput.json'')
                (batch_size b) (node_tag b) (graph_tag b) (label_tag b) (world s))"
proof (intro conjI allI impI)
  show "\<not> list_ex is_pickle_load (events (snd (main env c w)))"
    by (rule no_pickle_load)
next
  fix a
  assume "parse_args c = Inr a"
  then show "filter is_new_dataset (events (snd (main env c w))) =
            [NewDataSet (path_join (input_dir a) ''train_GGNNinput.json'')
               (path_join (input_dir a) ''valid_GGNNinput.json'')
               (path_join (input_dir a) ''test_GGNNinput.json'')
               (batch_size a) (node_tag a) (graph_tag a) (label_tag a)]"
    by (simp add: new_dataset_once dataset_event_def)
next
  show "load_dataset (env\<lparr>path_exists := pe\<rparr>) b s = load_dataset env b s"
    by (simp add: load_dataset_def)
next
  show "fst (load_dataset env b s) =
         fst (DataSet env (path_join (input_dir b) ''train_GGNNinput.json'')
                (path_join (input_dir b) ''valid_GGNNinput.json'')
                (path_join (input_dir b) ''test_GGNNinput.json'')
                (batch_size b) (node_tag b) (graph_tag b) (label_tag b) (world s))"
    by (simp add: load_dataset_def split_def Let_def)
qed

theorem dataset_rebuilt_from_json_witness:
  "parse_args example_cli = Inr example_args
   \<and> filter is_new_dataset (events (snd (main example_env example_cli example_world))) =
       [NewDataSet ''in/train_GGNNinput.json'' ''in/valid_GGNNinput.json''
          ''in/test_GGNNinput.json'' 128 ''node_features'' ''graph'' ''target'']
   \<and> \<not> list_ex is_pickle_load (events (snd (main example_env example_cli example_world)))
   \<and> load_dataset (example_env\<lparr>path_exists := (\<lambda>p w. True)\<rparr>) example_args example_state =
       load_dataset example_env example_args example_state"
  using dataset_rebuilt_from_json [of example_env example_cli example_world "\<lambda>p w. True"
      example_args example_state]
  by (simp add: parse_example example_paths) (simp add: example_args_def example_paths)

subsection \<open>Field names\<close>

lemma parse_args_Inr:
  assumes "parse_args c = Inr a"
  shows "a = \<lparr> model_type = default_to ''devign'' (cli_model_type c),
               dataset = the (cli_dataset c),
               input_dir = the (cli_input_dir c),
               node_tag = default_to ''node_features'' (cli_node_tag c),
               graph_tag = default_to ''graph'' (cli_graph_tag c),
               label_tag = default_to ''target'' (cli_label_tag c),
               feature_size = default_to 100 (cli_feature_size c),
               graph_embed_size = default_to 200 (cli_graph_embed_size c),
               num_steps = default_to 6 (cli_num_steps c),
               batch_size = default_to 128 (cli_batch_size c),
               save_after_ggnn_flag = cli_save_after_ggnn c \<rparr>"
proof (cases "cli_dataset c")
  case None
  with assms show ?thesis
    by (simp add: parse_args_def split: if_splits)
next
  case d: (Some d)
  show ?thesis
  proof (cases "cli_input_dir c")
    case None
    with assms d show ?thesis
      by (simp add: parse_args_def split: if_splits)
  next
    case (Some i)
    with assms d show ?thesis
      by (simp add: parse_args_def split: if_splits)
  qed
qed

lemma parse_args_tags:
  "parse_args c = Inr a \<Longrightarrow>
   node_tag a = (case cli_node_tag c of None \<Rightarrow> ''node_features'' | Some t \<Rightarrow> t)
   \<and> graph_tag a = (case cli_graph_tag c of None \<Rightarrow> ''graph'' | Some t \<Rightarrow> t)
   \<and> label_tag a = (case cli_label_tag c of None \<Rightarrow> ''target'' | Some t \<Rightarrow> t)"
  by (drule parse_args_Inr) (simp add: default_to_def)

text \<open>
  C7: the dataset is constructed with the field names of the command line: a flag
  that is omitted gives \<open>node_features\<close>, \<open>graph\<close> or \<open>target\<close>, a flag that is given
  gives its value, unchanged. Every run whose command line parses makes exactly one
  call of the constructor, with these names.
\<close>

theorem field_names_default_or_given:
  fixes env :: "('g, 'd, 'm, 'w, 'r) env"
  assumes "parse_args c = Inr a"
  shows "filter is_new_dataset (events (snd (main env c w))) =
           [NewDataSet (path_join (input_dir a) ''train_GGNNinput.json'')
              (path_join (input_dir a) ''valid_GGNNinput.json'')
              (path_join (input_dir a) ''test_GGNNinput.json'')
              (batch_size a)
              (case cli_node_tag c of None \<Rightarrow> ''node_features'' | Some t \<Rightarrow> t)
              (case cli_graph_tag c of None \<Rightarrow> ''graph'' | Some t \<Rightarrow> t)
              (case cli_label_tag c of None \<Rightarrow> ''target'' | Some t \<Rightarrow> t)]"
  using parse_args_tags [OF assms] new_dataset_once [OF assms, of env w]
  by (simp add: dataset_event_def)

lemma parse_tagged:
  "parse_args tagged_cli =
     Inr (example_args\<lparr> node_tag := ''nf'', graph_tag := ''edges'', label_tag := ''y'' \<rparr>)"
  by (simp add: parse_args_def tagged_cli_def example_cli_def example_args_def default_to_def
      model_type_choices_def)

lemma example_cli_tags:
  "cli_node_tag example_cli = None" "cli_graph_tag example_cli = None"
  "cli_label_tag example_cli = None"
  by (simp_all add: example_cli_def)

lemma tagged_cli_tags:
  "cli_node_tag tagged_cli = Some ''nf''" "cli_graph_tag tagged_cli = Some ''edges''"
  "cli_label_tag tagged_cli = Some ''y''"
  by (simp_all add: tagged_cli_def)

lemma example_args_fields:
  "model_type example_args = ''devign''" "dataset example_args = ''d''"
  "input_dir example_args = ''in''" "node_tag example_args = ''node_features''"
  "graph_tag example_args = ''graph''" "label_tag example_args = ''target''"
  "feature_size example_args = 100" "graph_embed_size example_args = 200"
  "num_steps example_args = 6" "batch_size example_args = 128"
  "save_after_ggnn_flag example_args"
  by (simp_all add: example_args_def)

theorem field_names_default_or_given_witness:
  "filter is_new_dataset (events (snd (main example_env example_cli example_world))) =
     [NewDataSet ''in/train_GGNNinput.json'' ''in/valid_GGNNinput.json''
        ''in/test_GGNNinput.json'' 128 ''node_features'' ''graph'' ''target'']
   \<and> filter is_new_dataset (events (snd (main example_env tagged_cli example_world))) =
     [NewDataSet ''in/train_GGNNinput.json'' ''in/valid_GGNNinput.json''
        ''in/test_GGNNinput.json'' 128 ''nf'' ''edges'' ''y'']"
  using field_names_default_or_given [OF parse_example, of example_env example_world]
    field_names_default_or_given [OF parse_tagged, of example_env example_world]
  by (simp add: example_args_fields example_cli_tags tagged_cli_tags example_paths)

subsection \<open>The dataset is pickled\<close>

text \<open>
  C10: the dataset that the constructor returns is pickled at once to the file
  \<open>processed.bin\<close> of the input directory (the path \<open>os.path.join\<close> gives), without
  a look at whether that file exists: \<open>load_dataset\<close> is the constructor call followed by
  the dump. In a run whose command line parses the two calls are next to each other
  and are the only construction of a dataset, and no run loads a pickled dataset.
\<close>

theorem dataset_pickled_after_construction:
  fixes env :: "('g, 'd, 'm, 'w, 'r) env"
  shows "load_dataset env a s =
      (let (ds, w1) = DataSet env (path_join (input_dir a) ''train_GGNNinput.json'')
                        (path_join (input_dir a) ''valid_GGNNinput.json'')
                        (path_join (input_dir a) ''test_GGNNinput.json'')
                        (batch_size a) (node_tag a) (graph_tag a) (label_tag a) (world s)
       in (ds, s\<lparr> world := pickle_dump env ds (path_join (input_dir a) ''processed.bin'') w1,
                   events := events s @
                     [NewDataSet (path_join (input_dir a) ''train_GGNNinput.json'')
                        (path_join (input_dir a) ''valid_GGNNinput.json'')
                        (path_join (input_dir a) ''test_GGNNinput.json'')
                        (batch_size a) (node_tag a) (graph_tag a) (label_tag a),
                      PickleDump ds (path_join (input_dir a) ''processed.bin'')] \<rparr>))
    \<and> (parse_args c = Inr a \<longrightarrow>
         (\<exists>pre ds post.
            events (snd (main env c w)) =
              pre @ [NewDataSet (path_join (input_dir a) ''train_GGNNinput.json'')
                       (path_join (input_dir a) ''valid_GGNNinput.json'')
                       (path_join (input_dir a) ''test_GGNNinput.json'')
                       (batch_size a) (node_tag a) (graph_tag a) (label_tag a),
                     PickleDump ds (path_join (input_dir a) ''processed.bin'')] @ post
            \<and> filter is_new_dataset pre = [] \<and> filter is_new_dataset post = []))
    \<and> \<not> list_ex is_pickle_load (events (snd (main env c w)))
    \<and> (input_dir a \<noteq> [] \<and> \<not> ends_with_sep (input_dir a) \<longrightarrow>
         path_join (input_dir a) ''processed.bin'' = input_dir a @ ''/processed.bin'')"
proof (intro conjI impI)
  show "load_dataset env a s =
      (let (ds, w1) = DataSet env (path_join (input_dir a) ''train_GGNNinput.json'')
                        (path_join (input_dir a) ''valid_GGNNinput.json'')
                        (path_join (input_dir a) ''test_GGNNinput.json'')
                        (batch_size a) (node_tag a) (graph_tag a) (label_tag a) (world s)
       in (ds, s\<lparr> world := pickle_dump env ds (path_join (input_dir a) ''processed.bin'') w1,
                   events := events s @
                     [NewDataSet (path_join (input_dir a) ''train_GGNNinput.json'')
                        (path_join (input_dir a) ''valid_GGNNinput.json'')
                        (path_join (input_dir a) ''test_GGNNinput.json'')
                        (batch_size a) (node_tag a) (graph_tag a) (label_tag a),
                      PickleDump ds (path_join (input_dir a) ''processed.bin'')] \<rparr>))"
    by (simp add: load_dataset_def split_def Let_def emit_def processed_data_path_def)
next
  assume p: "parse_args c = Inr a"
  from main_events [OF p, of env w] obtain mk ds tl where
    ev: "events (snd (main env c w)) =
       startup_events env
       @ (if feature_size a > graph_embed_size a then [PrintStderr warning_text] else [])
       @ mk @ [dataset_event a, PickleDump ds (processed_data_path a)] @ tl"
    and mk: "mk = [] \<or> mk = [MakeDirs (model_dir a)]"
    and tl: "tl = [] \<or>
         (\<exists>m t rep ex.
            tl = [NewModel (selected_kind a) (feature_size a)
                    (max (feature_size a) (graph_embed_size a)) (num_steps a) t]
                 @ rep @ [TrainCall (driver_train_call (adjusted a) m ds)] @ ex
            \<and> list_all is_report_event rep \<and> list_all is_export_event ex)"
    by blast
  let ?pre = "startup_events env
       @ (if feature_size a > graph_embed_size a then [PrintStderr warning_text] else []) @ mk"
  have 1: "events (snd (main env c w)) =
      ?pre @ [NewDataSet (path_join (input_dir a) ''train_GGNNinput.json'')
                       (path_join (input_dir a) ''valid_GGNNinput.json'')
                       (path_join (input_dir a) ''test_GGNNinput.json'')
                       (batch_size a) (node_tag a) (graph_tag a) (label_tag a),
                     PickleDump ds (path_join (input_dir a) ''processed.bin'')] @ tl"
    unfolding ev by (simp add: dataset_event_def processed_data_path_def)
  have 2: "filter is_new_dataset ?pre = []"
    using mk by (auto simp: startup_events_def)
  have 3: "filter is_new_dataset tl = []"
    using tl by (auto simp: report_not_new_dataset export_not_new_dataset)
  from 1 2 3 show "\<exists>pre ds post.
            events (snd (main env c w)) =
              pre @ [NewDataSet (path_join (input_dir a) ''train_GGNNinput.json'')
                       (path_join (input_dir a) ''valid_GGNNinput.json'')
                       (path_join (input_dir a) ''test_GGNNinput.json'')
                       (batch_size a) (node_tag a) (graph_tag a) (label_tag a),
                     PickleDump ds (path_join (input_dir a) ''processed.bin'')] @ post
            \<and> filter is_new_dataset pre = [] \<and> filter is_new_dataset post = []"
    by blast
next
  show "\<not> list_ex is_pickle_load (events (snd (main env c w)))"
    by (rule no_pickle_load)
next
  assume "input_dir a \<noteq> [] \<and> \<not> ends_with_sep (input_dir a)"
  then show "path_join (input_dir a) ''processed.bin'' = input_dir a @ ''/processed.bin''"
    by (simp add: path_join_def starts_with_sep_def)
qed

theorem dataset_pickled_after_construction_witness:
  "parse_args example_cli = Inr example_args
   \<and> (\<exists>pre ds post.
        events (snd (main example_env example_cli example_world)) =
          pre @ [NewDataSet ''in/train_GGNNinput.json'' ''in/valid_GGNNinput.json''
                   ''in/test_GGNNinput.json'' 128 ''node_features'' ''graph'' ''target'',
                 PickleDump ds ''in/processed.bin''] @ post
        \<and> filter is_new_dataset pre = [] \<and> filter is_new_dataset post = [])
   \<and> ''in'' \<noteq> [] \<and> \<not> ends_with_sep ''in''
   \<and> path_join ''in'' ''processed.bin'' = ''in/processed.bin''"
  using dataset_pickled_after_construction
    [of example_env example_args example_state example_cli example_world]
  by (simp add: parse_example example_args_fields example_paths ends_with_sep_def)

subsection \<open>The assertion on the feature size\<close>

lemma parse_small: "parse_args small_cli = Inr small_args"
  by (simp add: parse_args_def small_cli_def small_args_def example_cli_def example_args_def
      default_to_def model_type_choices_def)

lemma detected_example: "detected_feature_size example_env a example_world = 100"
  by (simp add: detected_feature_size_def prepare_def split_def Let_def load_dataset_def
      example_env_def)

text \<open>
  C2: in a run whose command line parses, the assertion of line 93 fails exactly when
  the feature size of the command line differs from the one the dataset reports. When
  it fails the run ends there, with no model constructed and no call of the training
  loop; when the two sizes are equal the run does not end in an error.
\<close>

theorem feature_size_mismatch_aborts:
  fixes env :: "('g, 'd, 'm, 'w, 'r) env"
  assumes "parse_args c = Inr a"
  shows "(feature_size a \<noteq> detected_feature_size env a w \<longrightarrow>
            fst (main env c w) = Some AssertionError
            \<and> filter is_new_model (events (snd (main env c w))) = []
            \<and> train_calls (events (snd (main env c w))) = [])
       \<and> (feature_size a = detected_feature_size env a w \<longrightarrow>
            fst (main env c w) = None
            \<and> length (filter is_new_model (events (snd (main env c w)))) = 1)"
proof -
  from main_summary [OF assms, of env w] obtain pre post where
    ev: "events (snd (main env c w)) = pre @ post"
    and pre: "filter is_new_model pre = []" "train_calls pre = []"
    and post: "fst (main env c w) = Some AssertionError \<and> post = [] \<or>
         fst (main env c w) = None \<and>
         (\<exists>t. filter is_new_model post =
              [NewModel (selected_kind a) (feature_size a)
                 (max (feature_size a) (graph_embed_size a)) (num_steps a) t])"
    by blast
  show ?thesis
    using post pre by (auto simp: ev main_outcome [OF assms])
qed

theorem feature_size_mismatch_aborts_witness:
  "feature_size small_args \<noteq> detected_feature_size example_env small_args example_world
   \<and> fst (main example_env small_cli example_world) = Some AssertionError
   \<and> filter is_new_model (events (snd (main example_env small_cli example_world))) = []
   \<and> feature_size example_args = detected_feature_size example_env example_args example_world
   \<and> fst (main example_env example_cli example_world) = None"
  using feature_size_mismatch_aborts [OF parse_small, of example_env example_world]
    feature_size_mismatch_aborts [OF parse_example, of example_env example_world]
  by (simp add: detected_example example_args_fields small_args_def)

subsection \<open>The graph embedding size\<close>

lemma parse_wide: "parse_args wide_cli = Inr wide_args"
  by (simp add: parse_args_def wide_cli_def wide_args_def example_cli_def example_args_def
      default_to_def model_type_choices_def)

lemma detected_wide: "detected_feature_size wide_env a example_world = 300"
  by (simp add: detected_feature_size_def prepare_def split_def Let_def load_dataset_def
      wide_env_def example_env_def)

text \<open>
  C1: when the feature size of the parsed arguments is greater than the graph
  embedding size, lines 70 to 73 print the warning and set the graph embedding size to
  the feature size; the warning comes before the first construction of a model, and
  every model of the run is constructed with the feature size as its output dimension.
  Otherwise the arguments are left as they are, no warning is printed and the model is
  constructed with the graph embedding size. In both cases the way the run ends depends
  on the assertion of line 93 alone.
\<close>

theorem embed_size_auto_corrected:
  fixes env :: "('g, 'd, 'm, 'w, 'r) env" and s :: "('d, 'm, 'w, 'r) state"
  assumes "parse_args c = Inr a"
  shows "(feature_size a > graph_embed_size a \<longrightarrow>
            fix_graph_embed_size a s =
              (a\<lparr>graph_embed_size := feature_size a\<rparr>, emit (PrintStderr warning_text) s)
            \<and> PrintStderr warning_text \<in>
                set (takeWhile (\<lambda>e. \<not> is_new_model e) (events (snd (main env c w))))
            \<and> (\<forall>k i d n t. NewModel k i d n t \<in> set (events (snd (main env c w))) \<longrightarrow>
                  d = feature_size a))
       \<and> (feature_size a \<le> graph_embed_size a \<longrightarrow>
            fix_graph_embed_size a s = (a, s)
            \<and> PrintStderr warning_text \<notin> set (events (snd (main env c w)))
            \<and> (\<forall>k i d n t. NewModel k i d n t \<in> set (events (snd (main env c w))) \<longrightarrow>
                  d = graph_embed_size a))
       \<and> fst (main env c w) =
           (if feature_size a = detected_feature_size env a w then None
            else Some AssertionError)
       \<and> (fst (main env c w) = None \<longrightarrow>
            (\<exists>k i n t. filter is_new_model (events (snd (main env c w))) =
               [NewModel k i (max (feature_size a) (graph_embed_size a)) n t]))"
proof -
  from main_summary [OF assms, of env w] obtain pre post where
    ev: "events (snd (main env c w)) = pre @ post"
    and pre: "filter is_new_model pre = []"
    and warn: "PrintStderr warning_text \<in> set pre \<longleftrightarrow> feature_size a > graph_embed_size a"
      "PrintStderr warning_text \<notin> set post"
    and post: "fst (main env c w) = Some AssertionError \<and> post = [] \<or>
         fst (main env c w) = None \<and>
         (\<exists>t. filter is_new_model post =
              [NewModel (selected_kind a) (feature_size a)
                 (max (feature_size a) (graph_embed_size a)) (num_steps a) t])"
    by blast
  have pre_all: "\<forall>e \<in> set pre. \<not> is_new_model e"
    using pre by (simp add: filter_empty_conv)
  have tw: "takeWhile (\<lambda>e. \<not> is_new_model e) (pre @ post) =
      pre @ takeWhile (\<lambda>e. \<not> is_new_model e) post"
    using pre_all by (simp add: takeWhile_append2)
  have models: "NewModel k i d n t \<in> set (pre @ post) \<Longrightarrow>
      d = max (feature_size a) (graph_embed_size a)" for k i d n t
  proof -
    assume "NewModel k i d n t \<in> set (pre @ post)"
    then have "NewModel k i d n t \<in> set (filter is_new_model (pre @ post))"
      by simp
    then have mem: "NewModel k i d n t \<in> set (filter is_new_model post)"
      using pre by simp
    then have "post \<noteq> []"
      by auto
    with post obtain t' where "filter is_new_model post =
        [NewModel (selected_kind a) (feature_size a)
           (max (feature_size a) (graph_embed_size a)) (num_steps a) t']"
      by blast
    with mem have "NewModel k i d n t \<in> set
        [NewModel (selected_kind a) (feature_size a)
           (max (feature_size a) (graph_embed_size a)) (num_steps a) t']"
      by simp
    then show ?thesis
      by simp
  qed
  have filt: "filter is_new_model (pre @ post) = filter is_new_model post"
    using pre by simp
  show ?thesis
  proof (intro conjI impI allI)
    assume "graph_embed_size a < feature_size a"
    then show "fix_graph_embed_size a s =
        (a\<lparr>graph_embed_size := feature_size a\<rparr>, emit (PrintStderr warning_text) s)"
      by (simp add: fix_graph_embed_size_def)
  next
    assume "graph_embed_size a < feature_size a"
    then show "PrintStderr warning_text \<in>
        set (takeWhile (\<lambda>e. \<not> is_new_model e) (events (snd (main env c w))))"
      using warn by (simp add: ev tw)
  next
    fix k i d n t
    assume "graph_embed_size a < feature_size a"
      and "NewModel k i d n t \<in> set (events (snd (main env c w)))"
    then show "d = feature_size a"
      using models [of k i d n t] by (simp add: ev)
  next
    assume "feature_size a \<le> graph_embed_size a"
    then show "fix_graph_embed_size a s = (a, s)"
      by (simp add: fix_graph_embed_size_def)
  next
    assume "feature_size a \<le> graph_embed_size a"
    then show "PrintStderr warning_text \<notin> set (events (snd (main env c w)))"
      using warn by (simp add: ev)
  next
    fix k i d n t
    assume "feature_size a \<le> graph_embed_size a"
      and "NewModel k i d n t \<in> set (events (snd (main env c w)))"
    then show "d = graph_embed_size a"
      using models [of k i d n t] by (simp add: ev)
  next
    show "fst (main env c w) =
           (if feature_size a = detected_feature_size env a w then None
            else Some AssertionError)"
      by (rule main_outcome [OF assms])
  next
    assume "fst (main env c w) = None"
    with post show "\<exists>k i n t. filter is_new_model (events (snd (main env c w))) =
               [NewModel k i (max (feature_size a) (graph_embed_size a)) n t]"
      unfolding ev filt by auto
  qed
qed

theorem embed_size_auto_corrected_witness:
  "graph_embed_size wide_args < feature_size wide_args
   \<and> fix_graph_embed_size wide_args example_state =
       (wide_args\<lparr>graph_embed_size := 300\<rparr>, emit (PrintStderr warning_text) example_state)
   \<and> PrintStderr warning_text \<in>
       set (takeWhile (\<lambda>e. \<not> is_new_model e)
              (events (snd (main wide_env wide_cli example_world))))
   \<and> fst (main wide_env wide_cli example_world) = None
   \<and> (\<exists>k i n t. filter is_new_model (events (snd (main wide_env wide_cli example_world))) =
         [NewModel k i 300 n t])
   \<and> feature_size example_args \<le> graph_embed_size example_args
   \<and> fix_graph_embed_size example_args example_state = (example_args, example_state)
   \<and> PrintStderr warning_text \<notin> set (events (snd (main example_env example_cli example_world)))
   \<and> fst (main example_env example_cli example_world) = None
   \<and> (\<exists>k i n t. filter is_new_model (events (snd (main example_env example_cli example_world))) =
         [NewModel k i 200 n t])"
  using embed_size_auto_corrected [OF parse_wide, of example_state wide_env example_world]
    embed_size_auto_corrected [OF parse_example, of example_state example_env example_world]
  by (simp add: detected_wide detected_example example_args_fields wide_args_def)

subsection \<open>Loss and optimizer\<close>

lemma parse_absolute: "parse_args absolute_cli = Inr absolute_args"
  by (simp add: parse_args_def absolute_cli_def absolute_args_def example_cli_def example_args_def
      default_to_def model_type_choices_def)

lemma parse_ggnn: "parse_args ggnn_cli = Inr ggnn_args"
  by (simp add: parse_args_def ggnn_cli_def ggnn_args_def example_cli_def example_args_def
      default_to_def model_type_choices_def)

lemma driver_train_call_fields:
  "tc_model (driver_train_call a m ds) = m" "tc_dataset (driver_train_call a m ds) = ds"
  "max_steps (driver_train_call a m ds) = 1000000" "dev_every (driver_train_call a m ds) = 128"
  "loss_function (driver_train_call a m ds) = BCELoss ''sum''"
  "optimizer (driver_train_call a m ds) = Adam m (1 / 10000) (1 / 1000)"
  "save_path (driver_train_call a m ds) = model_dir a @ ''/GGNNSumModel''"
  "max_patience (driver_train_call a m ds) = 5" "log_every (driver_train_call a m ds) = None"
  by (simp_all add: driver_train_call_def driver_loss_function_def)

lemma main_train_calls:
  fixes env :: "('g, 'd, 'm, 'w, 'r) env"
  assumes "parse_args c = Inr a"
  shows "fst (main env c w) = Some AssertionError \<and> train_calls (events (snd (main env c w))) = []
     \<or> fst (main env c w) = None \<and>
       (\<exists>m ds t w'.
          train_calls (events (snd (main env c w))) = [driver_train_call (adjusted a) m ds]
          \<and> m = fst (new_model env (selected_kind a) (feature_size a)
                 (max (feature_size a) (graph_embed_size a)) (num_steps a) t w'))"
proof -
  from main_summary [OF assms, of env w] obtain pre post where
    ev: "events (snd (main env c w)) = pre @ post"
    and pre: "train_calls pre = []"
    and post: "fst (main env c w) = Some AssertionError \<and> post = [] \<or>
         fst (main env c w) = None \<and>
         (\<exists>m ds t w'.
            train_calls post = [driver_train_call (adjusted a) m ds]
            \<and> m = fst (new_model env (selected_kind a) (feature_size a)
                   (max (feature_size a) (graph_embed_size a)) (num_steps a) t w'))"
    by blast
  have "train_calls (pre @ post) = train_calls post"
    by (simp add: pre)
  with post show ?thesis
    unfolding ev by auto
qed

lemma export_embeddings_train_calls:
  "train_calls (events (export_embeddings env a m ds s)) = train_calls (events s)"
  using export_embeddings_export [of env a m ds s]
  by (auto simp: export_no_train_calls)

lemma report_model_train_calls:
  "train_calls (events (report_model env m s)) = train_calls (events s)"
  using report_model_events [of env m s]
  by (auto simp: report_no_train_calls)

lemma train_calls_example_run:
  assumes "parse_args c = Inr a" and "feature_size a = 100"
  shows "train_calls (events (snd (main example_env c example_world))) =
     [driver_train_call (adjusted a) 1 7]"
proof -
  have ds: "fst (snd (prepare example_env a s)) = 7" for s :: "(nat, nat, nat, int) state"
    by (simp add: prepare_def split_def Let_def load_dataset_def example_env_def)
  have fs: "ds_feature_size example_env d w = 100" for d w
    by (simp add: example_env_def)
  have m: "fst (build_model example_env b d s) = 1" for b d and s :: "(nat, nat, nat, int) state"
    by (simp add: build_model_def split_def Let_def example_env_def)
  have pre: "train_calls (events (snd (snd (prepare example_env a (startup example_env example_world))))) = []"
    by (simp add: prepare_events startup_events_eq startup_events_def)
  show ?thesis
    by (simp add: main_parsed [OF assms(1)] main_body_def split_def Let_def prepare_fst ds fs m
        assms(2) export_embeddings_train_calls run_train_events report_model_train_calls
        build_model_events pre)
qed

text \<open>
  C5: every call of the training loop passes the loss \<open>BCELoss(reduction='sum')\<close> and
  the optimizer \<open>Adam\<close> with learning rate 0.0001 and weight decay 0.001 over the
  parameters of the model that is passed as \<open>model\<close>, which is the model built by the
  constructor that \<open>model_type\<close> selects. A run whose assertion holds makes exactly one
  such call, any other run none.
\<close>

theorem train_uses_bce_sum_and_adam:
  fixes env :: "('g, 'd, 'm, 'w, 'r) env"
  assumes "parse_args c = Inr a"
  shows "(\<forall>tc \<in> set (train_calls (events (snd (main env c w)))).
            loss_function tc = BCELoss ''sum''
            \<and> optimizer tc = Adam (tc_model tc) (1 / 10000) (1 / 1000)
            \<and> (\<exists>i d n t w'.
                  tc_model tc =
                    fst (new_model env (if model_type a = ''ggnn'' then GGNNSum else DevignModel)
                           i d n t w')))
       \<and> length (train_calls (events (snd (main env c w)))) =
           (if fst (main env c w) = None then 1 else 0)"
  using main_train_calls [OF assms, of env w]
proof (elim disjE conjE exE)
  assume "fst (main env c w) = Some AssertionError"
    and "train_calls (events (snd (main env c w))) = []"
  then show ?thesis by simp
next
  fix m ds t w'
  assume ok: "fst (main env c w) = None"
    and tc: "train_calls (events (snd (main env c w))) = [driver_train_call (adjusted a) m ds]"
    and m: "m = fst (new_model env (selected_kind a) (feature_size a)
                 (max (feature_size a) (graph_embed_size a)) (num_steps a) t w')"
  have "\<exists>i d n t w'. m =
      fst (new_model env (if model_type a = ''ggnn'' then GGNNSum else DevignModel) i d n t w')"
    unfolding m selected_kind_def by blast
  then show ?thesis
    by (simp add: ok tc driver_train_call_fields)
qed

theorem train_uses_bce_sum_and_adam_witness:
  "train_calls (events (snd (main example_env example_cli example_world))) =
     [driver_train_call (adjusted example_args) 1 7]
   \<and> loss_function (driver_train_call (adjusted example_args) 1 (7 :: nat)) = BCELoss ''sum''
   \<and> optimizer (driver_train_call (adjusted example_args) (1 :: nat) (7 :: nat)) =
       Adam 1 (1 / 10000) (1 / 1000)
   \<and> fst (main example_env example_cli example_world) = None"
  using train_uses_bce_sum_and_adam [OF parse_example, of example_env example_world]
  by (simp add: train_calls_example_run [OF parse_example] example_args_fields
      main_outcome [OF parse_example] detected_example driver_train_call_fields)

subsection \<open>The checkpoint path\<close>

text \<open>
  C8, as amended: the checkpoint path passed to the training loop is
  \<open>os.path.join('models', dataset)\<close> followed by \<open>/GGNNSumModel\<close>. That is
  \<open>models/<dataset>/GGNNSumModel\<close> when the dataset name does not start with \<open>/\<close>, and
  \<open><dataset>/GGNNSumModel\<close> when it does. It is the same for any two runs with the same
  dataset name, whatever model type, other flags and environment they have.
\<close>

theorem checkpoint_path_from_dataset_name:
  fixes env :: "('g, 'd, 'm, 'w, 'r) env"
  assumes "parse_args c = Inr a"
  shows "(\<forall>tc \<in> set (train_calls (events (snd (main env c w)))).
            save_path tc = path_join ''models'' (dataset a) @ ''/GGNNSumModel''
            \<and> (\<not> starts_with_sep (dataset a) \<longrightarrow>
                  save_path tc = ''models/'' @ dataset a @ ''/GGNNSumModel'')
            \<and> (starts_with_sep (dataset a) \<longrightarrow>
                  save_path tc = dataset a @ ''/GGNNSumModel''))
       \<and> (\<forall>c' a' (env' :: ('g, 'd, 'm, 'w, 'r) env) w'.
            parse_args c' = Inr a' \<and> dataset a' = dataset a \<longrightarrow>
            (\<forall>tc \<in> set (train_calls (events (snd (main env c w)))).
               \<forall>tc' \<in> set (train_calls (events (snd (main env' c' w')))).
                 save_path tc' = save_path tc))"
proof -
  have path: "tc \<in> set (train_calls (events (snd (main e b v)))) \<Longrightarrow>
      save_path tc = path_join ''models'' (dataset x) @ ''/GGNNSumModel''"
    if "parse_args b = Inr x" for tc b x v and e :: "('g, 'd, 'm, 'w, 'r) env"
    using main_train_calls [OF that, of e v]
    by (auto simp: driver_train_call_fields model_dir_def)
  have plain: "\<not> starts_with_sep (dataset a) \<Longrightarrow>
      path_join ''models'' (dataset a) = ''models/'' @ dataset a"
    by (simp add: path_join_def ends_with_sep_def)
  have absolute: "starts_with_sep (dataset a) \<Longrightarrow> path_join ''models'' (dataset a) = dataset a"
    by (simp add: path_join_def)
  show ?thesis
    using path [OF assms] plain absolute
    by (auto simp: path)
qed

theorem checkpoint_path_from_dataset_name_witness:
  "map save_path (train_calls (events (snd (main example_env example_cli example_world)))) =
     [''models/d/GGNNSumModel'']
   \<and> map save_path (train_calls (events (snd (main example_env ggnn_cli example_world)))) =
     [''models/d/GGNNSumModel'']
   \<and> model_type example_args = ''devign'' \<and> model_type ggnn_args = ''ggnn''
   \<and> dataset ggnn_args = dataset example_args \<and> \<not> starts_with_sep (dataset example_args)"
  using checkpoint_path_from_dataset_name [OF parse_example, of example_env example_world]
  by (simp add: train_calls_example_run [OF parse_example]
      train_calls_example_run [OF parse_ggnn] example_args_fields ggnn_args_def
      driver_train_call_fields model_dir_def example_paths starts_with_sep_def)

text \<open>
  The claim as it is written fails for a dataset name that starts with \<open>/\<close>: with
  \<open>--dataset /d\<close> the path is \<open>/d/GGNNSumModel\<close> and not \<open>models//d/GGNNSumModel\<close>.
\<close>

theorem checkpoint_path_counterexample:
  "parse_args absolute_cli = Inr absolute_args \<and> dataset absolute_args = ''/d''
   \<and> map save_path (train_calls (events (snd (main example_env absolute_cli example_world)))) =
       [''/d/GGNNSumModel'']
   \<and> ''/d/GGNNSumModel'' \<noteq> ''models/'' @ ''/d'' @ ''/GGNNSumModel''"
  by (simp add: parse_absolute train_calls_example_run [OF parse_absolute] absolute_args_def
      example_args_fields driver_train_call_fields model_dir_def path_join_def
      starts_with_sep_def)

subsection \<open>Seeding\<close>

lemma startup_generators_overwritten:
  "outside w = outside w' \<Longrightarrow> startup env w = startup env w'"
  by (cases w, cases w') (simp add: startup_def emit_def Let_def)

lemma main_starts_with_startup:
  fixes env :: "('g, 'd, 'm, 'w, 'r) env"
  shows "\<exists>rest. events (snd (main env c w)) = startup_events env @ rest"
proof (cases "parse_args c")
  case (Inl e)
  then show ?thesis
    by (simp add: main_rejected startup_events_eq)
next
  case (Inr a)
  from main_events [OF Inr, of env w] show ?thesis
    by blast
qed

text \<open>
  C9: the first things a run does after the message of line 18 are the two seedings
  with the constant 1000, which put both generators into the state that follows from
  the seed alone; everything else the run does starts from that state. So two runs with
  the same command line, environment and outside world are equal in their outcome, in
  all their events and in their final world, whatever the two generators held when the
  runs started.
\<close>

theorem seeded_before_anything_random:
  fixes env :: "('g, 'd, 'm, 'w, 'r) env"
  shows "events (startup env w) =
           [Print (''CUDA is '' @ (if CUDA env then ''enabled'' else ''disabled'')),
            TorchManualSeed 1000, NumpyRandomSeed 1000]
       \<and> world (startup env w) =
           \<lparr> torch_gen = seeded_torch env 1000, numpy_gen = seeded_numpy env 1000,
             outside = outside w \<rparr>
       \<and> main env c w =
           (case parse_args c of
              Inl e \<Rightarrow> (Some e, startup env w)
            | Inr a \<Rightarrow> main_body env a (startup env w))
       \<and> (\<exists>rest. events (snd (main env c w)) =
             [Print (''CUDA is '' @ (if CUDA env then ''enabled'' else ''disabled'')),
              TorchManualSeed 1000, NumpyRandomSeed 1000] @ rest)
       \<and> (outside w = outside w' \<longrightarrow> main env c w = main env c w')"
proof (intro conjI impI)
  show "events (startup env w) =
           [Print (''CUDA is '' @ (if CUDA env then ''enabled'' else ''disabled'')),
            TorchManualSeed 1000, NumpyRandomSeed 1000]"
    by (simp add: startup_events_eq startup_events_def)
next
  show "world (startup env w) =
           \<lparr> torch_gen = seeded_torch env 1000, numpy_gen = seeded_numpy env 1000,
             outside = outside w \<rparr>"
    by (rule startup_world)
next
  show "main env c w =
           (case parse_args c of
              Inl e \<Rightarrow> (Some e, startup env w)
            | Inr a \<Rightarrow> main_body env a (startup env w))"
    by (simp add: main_def)
next
  from main_starts_with_startup [of env c w]
  show "\<exists>rest. events (snd (main env c w)) =
             [Print (''CUDA is '' @ (if CUDA env then ''enabled'' else ''disabled'')),
              TorchManualSeed 1000, NumpyRandomSeed 1000] @ rest"
    by (simp add: startup_events_def)
next
  assume "outside w = outside w'"
  then have "startup env w = startup env w'"
    by (rule startup_generators_overwritten)
  then show "main env c w = main env c w'"
    by (simp add: main_def split: sum.splits)
qed

theorem seeded_before_anything_random_witness:
  "outside example_world = outside other_world
   \<and> torch_gen example_world \<noteq> torch_gen other_world
   \<and> numpy_gen example_world \<noteq> numpy_gen other_world
   \<and> main example_env example_cli example_world = main example_env example_cli other_world"
proof -
  have same: "outside example_world = outside other_world"
    by (simp add: example_world_def other_world_def)
  from seeded_before_anything_random [of example_env example_world example_cli other_world]
  have "outside example_world = outside other_world \<longrightarrow>
      main example_env example_cli example_world = main example_env example_cli other_world"
    by blast
  with same have "main example_env example_cli example_world =
      main example_env example_cli other_world"
    by blast
  moreover have "torch_gen example_world \<noteq> torch_gen other_world"
    "numpy_gen example_world \<noteq> numpy_gen other_world"
    by (simp_all add: example_world_def other_world_def)
  ultimately show ?thesis
    using same by blast
qed

subsection \<open>The exported embeddings\<close>



















subsection \<open>Early stopping\<close>

lemma run_to_check:
  assumes "0 < d" and "step_count st mod d + k = d" and "k \<le> n" and "0 < k"
  shows "train_steps metric d p n st =
     (let st2 = validate metric (st\<lparr>phase := Training, step_count := step_count st + k\<rparr>)
      in if patience_counter st2 = p then st2\<lparr>phase := EarlyStopped\<rparr>
         else train_steps metric d p (n - k) st2)"
  using assms
proof (induction k arbitrary: st n)
  case 0
  then show ?case by simp
next
  case (Suc k)
  from Suc.prems obtain n' where n: "n = Suc n'"
    by (cases n) auto
  show ?case
  proof (cases "k = 0")
    case True
    with Suc.prems have "Suc (step_count st) mod d = 0"
      by (simp add: mod_Suc)
    with True Suc.prems show ?thesis
      by (simp add: n Let_def)
  next
    case False
    with Suc.prems have ne: "Suc (step_count st mod d) \<noteq> d"
      by simp
    then have m: "Suc (step_count st) mod d = Suc (step_count st mod d)"
      by (simp add: mod_Suc)
    let ?st1 = "st\<lparr>phase := Training, step_count := step_count st + 1\<rparr>"
    have "train_steps metric d p n st = train_steps metric d p n' ?st1"
      using m by (simp add: n Let_def)
    also have "\<dots> =
      (let st2 = validate metric (?st1\<lparr>phase := Training, step_count := step_count ?st1 + k\<rparr>)
       in if patience_counter st2 = p then st2\<lparr>phase := EarlyStopped\<rparr>
          else train_steps metric d p (n' - k) st2)"
      using Suc.prems False m by (intro Suc.IH) (simp_all add: n)
    finally have "train_steps metric d p n st =
      (let st2 = validate metric (?st1\<lparr>phase := Training, step_count := step_count ?st1 + k\<rparr>)
       in if patience_counter st2 = p then st2\<lparr>phase := EarlyStopped\<rparr>
          else train_steps metric d p (n' - k) st2)" .
    moreover have "n' - k = n - Suc k"
      by (simp add: n)
    ultimately show ?thesis
      by (simp add: Let_def)
  qed
qed

lemma first_check:
  assumes "128 \<le> n"
  shows "train_steps metric 128 5 n initial_training_state =
     train_steps metric 128 5 (n - 128) (stalled_state metric Validating 1)"
  using run_to_check [of 128 initial_training_state 128 n metric 5] assms
  by (simp add: initial_training_state_def validate_def Let_def stalled_state_def)

lemma stalled_check:
  assumes "\<forall>k\<ge>2. metric k \<le> metric 1" and "1 \<le> j" and "128 \<le> n"
  shows "train_steps metric 128 5 n (stalled_state metric Validating j) =
     (if j = 5 then stalled_state metric EarlyStopped (j + 1)
      else train_steps metric 128 5 (n - 128) (stalled_state metric Validating (j + 1)))"
proof -
  have "metric (j + 1) \<le> metric 1"
    using assms(1,2) by simp
  then have v: "validate metric
      (stalled_state metric Validating j\<lparr>phase := Training,
         step_count := step_count (stalled_state metric Validating j) + 128\<rparr>) =
      stalled_state metric Validating (j + 1)"
    using assms(2) by (simp add: validate_def Let_def stalled_state_def)
  have "step_count (stalled_state metric Validating j) mod 128 + 128 = 128"
    by (simp add: stalled_state_def)
  from run_to_check [OF _ this assms(3), of metric 5] v show ?thesis
    by (auto simp: Let_def stalled_state_def)
qed

lemma stalled_continue:
  assumes "\<forall>k\<ge>2. metric k \<le> metric 1" and "1 \<le> j" and "j \<noteq> 5"
    and "j' = j + 1" and "n = n' + 128"
  shows "train_steps metric 128 5 n (stalled_state metric Validating j) =
     train_steps metric 128 5 n' (stalled_state metric Validating j')"
  using stalled_check [OF assms(1,2), of n] assms(3-5) by simp

lemma stalled_stop:
  assumes "\<forall>k\<ge>2. metric k \<le> metric 1" and "128 \<le> n"
  shows "train_steps metric 128 5 n (stalled_state metric Validating 5) =
     stalled_state metric EarlyStopped 6"
proof -
  have "(5 :: nat) + 1 = 6"
    by simp
  with stalled_check [OF assms(1) _ assms(2), of 5] show ?thesis
    by (simp only: if_True) simp
qed

lemma stalled_run:
  assumes "\<forall>k\<ge>2. metric k \<le> metric 1"
  shows "train_steps metric 128 5 1000000 initial_training_state =
     stalled_state metric EarlyStopped 6"
proof -
  note step = stalled_continue [OF assms]
  have "train_steps metric 128 5 1000000 initial_training_state =
      train_steps metric 128 5 999872 (stalled_state metric Validating 1)"
    using first_check [of 1000000 metric] by simp
  also have "\<dots> = train_steps metric 128 5 999744 (stalled_state metric Validating 2)"
    by (rule step) simp_all
  also have "\<dots> = train_steps metric 128 5 999616 (stalled_state metric Validating 3)"
    by (rule step) simp_all
  also have "\<dots> = train_steps metric 128 5 999488 (stalled_state metric Validating 4)"
    by (rule step) simp_all
  also have "\<dots> = train_steps metric 128 5 999360 (stalled_state metric Validating 5)"
    by (rule step) simp_all
  also have "\<dots> = stalled_state metric EarlyStopped 6"
    by (rule stalled_stop [OF assms]) simp
  finally show ?thesis .
qed

lemma main_train_calls_driver:
  fixes env :: "('g, 'd, 'm, 'w, 'r) env"
  assumes "tc \<in> set (train_calls (events (snd (main env c w))))"
  shows "\<exists>a m ds. tc = driver_train_call a m ds"
proof (cases "parse_args c")
  case (Inl e)
  with assms show ?thesis
    by (simp add: main_rejected startup_events_eq startup_events_def)
next
  case (Inr a)
  from main_train_calls [OF Inr, of env w] assms
  obtain m ds where "tc = driver_train_call (adjusted a) m ds"
    by auto
  then show ?thesis
    by blast
qed

text \<open>
  C6: the driver passes \<open>max_patience = 5\<close> (with \<open>dev_every = 128\<close> and
  \<open>max_steps = 1000000\<close>) in every call of the training loop. Run with these arguments
  on a validation metric that never improves after the first check, the loop of the
  specification halts in the early-stopped state at the sixth validation check, that is
  five checks after the best one, after 768 of the 1000000 optimization steps.
\<close>

theorem early_stop_after_five_checks:
  fixes env :: "('g, 'd, 'm, 'w, 'r) env"
  assumes "\<forall>k\<ge>2. metric k \<le> metric 1"
  shows "\<forall>tc \<in> set (train_calls (events (snd (main env c w)))).
           max_patience tc = 5
           \<and> phase (train_loop metric tc) = EarlyStopped
           \<and> best_check (train_loop metric tc) = 1
           \<and> checks (train_loop metric tc) = best_check (train_loop metric tc) + 5
           \<and> patience_counter (train_loop metric tc) = 5
           \<and> step_count (train_loop metric tc) = 6 * 128"
proof
  fix tc
  assume "tc \<in> set (train_calls (events (snd (main env c w))))"
  then obtain a m ds where tc: "tc = driver_train_call a m ds"
    using main_train_calls_driver by blast
  have "train_loop metric tc = stalled_state metric EarlyStopped 6"
    by (simp add: train_loop_def tc driver_train_call_fields stalled_run [OF assms])
  then show "max_patience tc = 5
           \<and> phase (train_loop metric tc) = EarlyStopped
           \<and> best_check (train_loop metric tc) = 1
           \<and> checks (train_loop metric tc) = best_check (train_loop metric tc) + 5
           \<and> patience_counter (train_loop metric tc) = 5
           \<and> step_count (train_loop metric tc) = 6 * 128"
    by (simp add: stalled_state_def tc driver_train_call_fields)
qed

theorem early_stop_after_five_checks_witness:
  "train_calls (events (snd (main example_env example_cli example_world))) =
     [driver_train_call (adjusted example_args) 1 7]
   \<and> stalled_metric 2 \<le> stalled_metric 1
   \<and> max_patience (driver_train_call (adjusted example_args) (1 :: nat) (7 :: nat)) = 5
   \<and> phase (train_loop stalled_metric (driver_train_call (adjusted example_args) (1 :: nat) (7 :: nat))) =
       EarlyStopped
   \<and> checks (train_loop stalled_metric (driver_train_call (adjusted example_args) (1 :: nat) (7 :: nat))) = 6"
proof -
  have stalled: "\<forall>k\<ge>2. stalled_metric k \<le> stalled_metric 1"
    by (simp add: stalled_metric_def)
  have calls: "train_calls (events (snd (main example_env example_cli example_world))) =
      [driver_train_call (adjusted example_args) 1 7]"
    by (simp add: train_calls_example_run [OF parse_example] example_args_fields)
  have two: "stalled_metric 2 \<le> stalled_metric 1"
    by (simp add: stalled_metric_def)
  from early_stop_after_five_checks [OF stalled, of example_env example_cli example_world]
  show ?thesis
    unfolding calls using two by simp
qed

end
